theory Spec2Isabelle
  imports Main
begin

section \<open>Data model (utils: \<open>User\<close>, \<open>Todo\<close>)\<close>

text \<open>
  Strings are lists of code units; the model covers the code units below 256, which
  contain every character the regular expressions of the extension name literally.
  An optional field of the TypeScript interface (\<open>column?\<close>, \<open>id?\<close>, \<open>author?\<close>, ...)
  is an \<open>option\<close>: \<open>None\<close> is \<open>undefined\<close>.
\<close>

record User =
  name :: string
  email :: string

datatype TodoType = Local | Remote

record Todo =
  "file" :: string
  line :: int
  column :: "nat option"
  type :: TodoType
  message :: string
  id' :: "string option"
  author :: "User option"
  assignees :: "User list option"
  createdAt :: "string option"
  updatedAt :: "string option"

section \<open>JavaScript strings and numbers\<close>

text \<open>
  \<open>\s\<close> of a regular expression, \<open>String.prototype.trim\<close> and the white space that
  \<open>parseInt\<close> skips are the same set: TAB, LF, VT, FF, CR, SP and NBSP among the code
  units below 256. The dot of a regular expression matches everything but a line
  terminator (LF and CR here).
\<close>

definition isWhiteSpace :: "char \<Rightarrow> bool" where
  "isWhiteSpace c \<longleftrightarrow>
     c = CHR 0x09 \<or> c = CHR 0x0A \<or> c = CHR 0x0B \<or> c = CHR 0x0C \<or> c = CHR 0x0D \<or>
     c = CHR '' '' \<or> c = CHR 0xA0"

definition isLineTerminator :: "char \<Rightarrow> bool" where
  "isLineTerminator c \<longleftrightarrow> c = CHR 0x0A \<or> c = CHR 0x0D"

definition trim :: "string \<Rightarrow> string" where
  "trim s = rev (dropWhile isWhiteSpace (rev (dropWhile isWhiteSpace s)))"

definition toLowerCaseChar :: "char \<Rightarrow> char" where
  "toLowerCaseChar c =
     (let n = (of_char c :: nat)
      in if (65 \<le> n \<and> n \<le> 90) \<or> (192 \<le> n \<and> n \<le> 222 \<and> n \<noteq> 215)
         then char_of (n + 32) else c)"

definition toLowerCase :: "string \<Rightarrow> string" where
  "toLowerCase s = map toLowerCaseChar s"

text \<open>
  \<open>`${n}`\<close> for a number that is an integer (below \<open>10^21\<close> in absolute value, where
  JavaScript prints every digit): line numbers, match indices and \<open>Date.now()\<close>.
\<close>

fun natToString :: "nat \<Rightarrow> string" where
  "natToString n =
     (if n < 10 then [''0123456789'' ! n]
      else natToString (n div 10) @ [''0123456789'' ! (n mod 10)])"

declare natToString.simps [simp del]

definition numberToString :: "int \<Rightarrow> string" where
  "numberToString i =
     (if i < 0 then CHR ''-'' # natToString (nat (- i)) else natToString (nat i))"

text \<open>
  \<open>parseInt(value)\<close> with no radix: skip white space, read a sign, read \<open>0x\<close>/\<open>0X\<close> as
  the hexadecimal prefix, take the longest run of digits of the radix; no digit gives
  \<open>NaN\<close>, here \<open>None\<close>. The result is the exact integer; the source's comparisons with
  \<open>1\<close> and \<open>document.lineCount\<close> give the same answers on the double nearest to it.
\<close>

definition digitValue :: "char \<Rightarrow> nat option" where
  "digitValue c =
     (let n = (of_char c :: nat)
      in if 48 \<le> n \<and> n \<le> 57 then Some (n - 48)
         else if 97 \<le> n \<and> n \<le> 122 then Some (n - 87)
         else if 65 \<le> n \<and> n \<le> 90 then Some (n - 55)
         else None)"

definition isRadixDigit :: "nat \<Rightarrow> char \<Rightarrow> bool" where
  "isRadixDigit radix c = (case digitValue c of None \<Rightarrow> False | Some d \<Rightarrow> d < radix)"

definition digitsValue :: "nat \<Rightarrow> string \<Rightarrow> nat" where
  "digitsValue radix z =
     foldl (\<lambda>acc c. acc * radix + (case digitValue c of None \<Rightarrow> 0 | Some d \<Rightarrow> d)) 0 z"

fun stripSign :: "string \<Rightarrow> int \<times> string" where
  "stripSign [] = (1, [])"
| "stripSign (c # s) =
     (if c = CHR ''-'' then (- 1, s) else if c = CHR ''+'' then (1, s) else (1, c # s))"

fun stripHexPrefix :: "string \<Rightarrow> nat \<times> string" where
  "stripHexPrefix (c # d # s) =
     (if c = CHR ''0'' \<and> (d = CHR ''x'' \<or> d = CHR ''X'') then (16, s) else (10, c # d # s))"
| "stripHexPrefix s = (10, s)"

definition parseInt :: "string \<Rightarrow> int option" where
  "parseInt inputString =
     (let (sign, s) = stripSign (dropWhile isWhiteSpace inputString);
          (radix, s') = stripHexPrefix s;
          z = takeWhile (isRadixDigit radix) s'
      in if z = [] then None else Some (sign * int (digitsValue radix z)))"

text \<open>\<open>s.indexOf(sub)\<close>: the first index at which \<open>sub\<close> occurs, \<open>None\<close> for \<open>-1\<close>.\<close>

fun indexOf :: "string \<Rightarrow> string \<Rightarrow> nat option" where
  "indexOf [] sub = (if sub = [] then Some 0 else None)"
| "indexOf (c # s) sub =
     (if take (length sub) (c # s) = sub then Some 0 else map_option Suc (indexOf s sub))"

section \<open>The regular expressions of the extension\<close>

text \<open>
  A regular expression is read as a backtracking matcher, written as a list of successes:
  each piece maps the text at the current position to the texts that can remain after it,
  in the order in which the backtracking of JavaScript tries them (a greedy piece lists
  its longest match first, a lazy piece its shortest). The match that \<open>exec\<close> reports
  at a position is the head of the list; an empty list is no match there.
\<close>

text \<open>\<open>((\/\/)|#)\<close>\<close>

fun commentPrefix :: "string \<Rightarrow> string list" where
  "commentPrefix (c # d # s) =
     (if c = CHR ''/'' \<and> d = CHR ''/'' then [s] else if c = CHR ''#'' then [d # s] else [])"
| "commentPrefix [c] = (if c = CHR ''#'' then [[]] else [])"
| "commentPrefix [] = []"

text \<open>\<open>\s*\<close> (greedy)\<close>

fun spacesGreedy :: "string \<Rightarrow> string list" where
  "spacesGreedy [] = [[]]"
| "spacesGreedy (c # s) = (if isWhiteSpace c then spacesGreedy s @ [c # s] else [c # s])"

text \<open>\<open>TODO\<close> under the \<open>i\<close> flag\<close>

fun todoToken :: "string \<Rightarrow> string list" where
  "todoToken (t # o1 # d # o2 # s) =
     (if (t = CHR ''T'' \<or> t = CHR ''t'') \<and> (o1 = CHR ''O'' \<or> o1 = CHR ''o'') \<and>
         (d = CHR ''D'' \<or> d = CHR ''d'') \<and> (o2 = CHR ''O'' \<or> o2 = CHR ''o'')
      then [s] else [])"
| "todoToken _ = []"

text \<open>\<open>[:\-]?\<close> (greedy)\<close>

fun optSeparator :: "string \<Rightarrow> string list" where
  "optSeparator [] = [[]]"
| "optSeparator (c # s) = (if c = CHR '':'' \<or> c = CHR ''-'' then [s, c # s] else [c # s])"

text \<open>\<open>(.*?)\<close> (lazy): the captured text and what remains\<close>

fun lazyDots :: "string \<Rightarrow> (string \<times> string) list" where
  "lazyDots [] = [([], [])]"
| "lazyDots (c # s) =
     ([], c # s) #
     (if isLineTerminator c then [] else map (\<lambda>(m, r). (c # m, r)) (lazyDots s))"

text \<open>\<open>.*$\<close>: the dots have to reach the end of the text\<close>

definition dotsToEnd :: "string \<Rightarrow> string list" where
  "dotsToEnd s = (if list_ex isLineTerminator s then [] else [[]])"

text \<open>\<open>((\/\/)|#)\s*TODO[:\-]?\<close>\<close>

definition todoHeader :: "string \<Rightarrow> string list" where
  "todoHeader s =
     List.bind (commentPrefix s) (\<lambda>s1.
     List.bind (spacesGreedy s1) (\<lambda>s2.
     List.bind (todoToken s2) optSeparator))"

text \<open>The lookahead \<open>(?=(\/\/|#)\s*TODO[:\-]?|$)\<close>\<close>

definition nextTodoOrEnd :: "string \<Rightarrow> bool" where
  "nextTodoOrEnd s \<longleftrightarrow> todoHeader s \<noteq> [] \<or> s = []"

text \<open>
  \<open>todoRegex = /((\/\/)|#)\s*TODO[:\-]?\s*(.*?)(?=(\/\/|#)\s*TODO[:\-]?|$)/gi\<close> at one
  position: the pairs of group 3 and the text after the match.
\<close>

definition todoRegexAt :: "string \<Rightarrow> (string \<times> string) list" where
  "todoRegexAt s =
     List.bind (todoHeader s) (\<lambda>s4.
     List.bind (spacesGreedy s4) (\<lambda>s5.
     filter (\<lambda>(m, r). nextTodoOrEnd r) (lazyDots s5)))"

text \<open>
  \<open>todoRegex.exec\<close> on the text \<open>s\<close> that starts at index \<open>i\<close> of the line
  (\<open>i\<close> is \<open>lastIndex\<close>): the first position from there with a match; its index, its
  group 3 and the text after the match, where the next \<open>lastIndex\<close> points.
\<close>

fun execFrom :: "nat \<Rightarrow> string \<Rightarrow> (nat \<times> string \<times> string) option" where
  "execFrom i s =
     (case todoRegexAt s of
        (m, r) # _ \<Rightarrow> Some (i, m, r)
      | [] \<Rightarrow> (case s of [] \<Rightarrow> None | _ # s' \<Rightarrow> execFrom (Suc i) s'))"

declare execFrom.simps [simp del]

text \<open>
  \<open>text.replace(/^((\/\/)|#)\s*TODO[:-]?\s*/i, "")\<close>: the pattern is anchored, so only
  a match at index 0 is replaced, and a text without one is returned as it is.
\<close>

definition stripTodoHeader :: "string \<Rightarrow> string" where
  "stripTodoHeader text =
     (case List.bind (todoHeader text) spacesGreedy of r # _ \<Rightarrow> r | [] \<Rightarrow> text)"

text \<open>The detection of the code action provider: \<open>/^((\/\/)|#)\s*TODO[:\-]?\s*/i.test(text)\<close>\<close>

definition isTodoComment :: "string \<Rightarrow> bool" where
  "isTodoComment text \<longleftrightarrow> List.bind (todoHeader text) spacesGreedy \<noteq> []"

text \<open>\<open>commentRegex = /^(\s*)((\/\/)|#)\s*TODO[:\-]?.*$/i\<close>, tested on the trimmed line\<close>

definition commentRegexTest :: "string \<Rightarrow> bool" where
  "commentRegexTest s \<longleftrightarrow>
     List.bind (spacesGreedy s) (\<lambda>s1. List.bind (todoHeader s1) dotsToEnd) \<noteq> []"

text \<open>
  \<open>lineText.match(/((\/\/)|#)\s*TODO[:\-]?.*$/i)\<close>: element 0 of the result, the matched
  text, which runs from the first matching position to the end of the line.
\<close>

fun todoCommentMatch :: "string \<Rightarrow> string option" where
  "todoCommentMatch s =
     (if List.bind (todoHeader s) dotsToEnd \<noteq> [] then Some s
      else (case s of [] \<Rightarrow> None | _ # s' \<Rightarrow> todoCommentMatch s'))"

section \<open>The host editor, at its interface\<close>

text \<open>
  A text document is its path, its language identifier and its lines (each without its
  line break). \<open>document.lineAt(n)\<close> throws for a line that the document does not have.
\<close>

record TextDocument =
  fsPath :: string
  languageId :: string
  lines :: "string list"

datatype error = IllegalLine

definition lineCount :: "TextDocument \<Rightarrow> int" where
  "lineCount document = int (length (lines document))"

definition lineAt :: "TextDocument \<Rightarrow> int \<Rightarrow> error + string" where
  "lineAt document n =
     (if 0 \<le> n \<and> n < lineCount document then Inr (lines document ! nat n)
      else Inl IllegalLine)"

text \<open>
  The three edits the commands apply. Inserting \<open>text + "\n"\<close> at the start of line \<open>n\<close>
  puts a new line before it. The range of a line with its line break is, for the last
  line, the line's text alone. Deleting a range inside a line keeps the text around it.
\<close>

definition insertLineBefore :: "TextDocument \<Rightarrow> nat \<Rightarrow> string \<Rightarrow> TextDocument" where
  "insertLineBefore document n text =
     document \<lparr> lines := take n (lines document) @ [text] @ drop n (lines document) \<rparr>"

definition deleteLineIncludingBreak :: "TextDocument \<Rightarrow> nat \<Rightarrow> TextDocument" where
  "deleteLineIncludingBreak document n =
     (if Suc n < length (lines document)
      then document \<lparr> lines := take n (lines document) @ drop (Suc n) (lines document) \<rparr>
      else document \<lparr> lines := (lines document)[n := []] \<rparr>)"

definition deleteRange :: "TextDocument \<Rightarrow> nat \<Rightarrow> nat \<Rightarrow> nat \<Rightarrow> TextDocument" where
  "deleteRange document n start end =
     document \<lparr> lines := (lines document)
        [n := take start (lines document ! n) @ drop end (lines document ! n)] \<rparr>"

text \<open>
  The input box with a validation callback: it accepts a value only when the callback
  returns no message and stays open otherwise, so its result is the first value the user
  submits that validates, or nothing when the user gives up. The quick pick returns the
  item the user chooses, or nothing.
\<close>

fun showInputBox :: "(string \<Rightarrow> string option) \<Rightarrow> string list \<Rightarrow> string option" where
  "showInputBox validateInput [] = None"
| "showInputBox validateInput (v # vs) =
     (if validateInput v = None then Some v else showInputBox validateInput vs)"

definition showQuickPick :: "'a list \<Rightarrow> nat option \<Rightarrow> 'a option" where
  "showQuickPick items choice =
     (case choice of None \<Rightarrow> None
      | Some k \<Rightarrow> if k < length items then Some (items ! k) else None)"

text \<open>\<open>!s\<close> for a string that may be \<open>undefined\<close>\<close>

definition falsy :: "string option \<Rightarrow> bool" where
  "falsy v \<longleftrightarrow> v = None \<or> v = Some []"

text \<open>
  How a command ends, next to the state it leaves: it ran to its end, it returned early
  in silence, or it returned early after an error or warning message.
\<close>

datatype outcome = Done | Returned | Rejected string

section \<open>utils\<close>

text \<open>
  \<open>getGitUserInfo\<close>: the argument is what the two \<open>git config\<close> calls print, or nothing
  when there is no workspace folder or a call throws.
\<close>

definition getGitUserInfo :: "(string \<times> string) option \<Rightarrow> User option" where
  "getGitUserInfo git =
     (case git of None \<Rightarrow> None
      | Some (nameOut, emailOut) \<Rightarrow>
          (let gitName = trim nameOut; gitEmail = trim emailOut
           in if gitName \<noteq> [] \<and> gitEmail \<noteq> []
              then Some \<lparr> name = gitName, email = gitEmail \<rparr> else None))"

definition addTeamMember :: "string \<Rightarrow> string \<Rightarrow> User list \<Rightarrow> bool \<times> User list" where
  "addTeamMember name' email' existingTeam =
     (if list_ex (\<lambda>member. email member = email') existingTeam then (False, existingTeam)
      else (True, existingTeam @ [\<lparr> name = name', email = email' \<rparr>]))"

definition removeTeamMember :: "string \<Rightarrow> User list \<Rightarrow> bool \<times> User list" where
  "removeTeamMember email' existingTeam =
     (let filteredTeam = filter (\<lambda>member. email member \<noteq> email') existingTeam
      in if length filteredTeam = length existingTeam then (False, existingTeam)
         else (True, filteredTeam))"

fun findIndex :: "('a \<Rightarrow> bool) \<Rightarrow> 'a list \<Rightarrow> nat option" where
  "findIndex p [] = None"
| "findIndex p (x # xs) = (if p x then Some 0 else map_option Suc (findIndex p xs))"

text \<open>
  \<open>filterVisibleRemoteTodos\<close>: \<open>todo.author?.email === userEmail\<close> is false when the
  author is absent, and \<open>todo.assignees?.some(...)\<close> is \<open>undefined\<close> (falsy) when the
  assignees are absent.
\<close>

definition authorMatches :: "Todo \<Rightarrow> string \<Rightarrow> bool" where
  "authorMatches todo userEmail =
     (case author todo of None \<Rightarrow> False | Some a \<Rightarrow> email a = userEmail)"

definition assigneeMatches :: "Todo \<Rightarrow> string \<Rightarrow> bool" where
  "assigneeMatches todo userEmail =
     (case assignees todo of None \<Rightarrow> False
      | Some as \<Rightarrow> list_ex (\<lambda>assignee. email assignee = userEmail) as)"

definition filterVisibleRemoteTodos :: "Todo list \<Rightarrow> string \<Rightarrow> Todo list" where
  "filterVisibleRemoteTodos todos userEmail =
     filter (\<lambda>todo. type todo = Remote \<and>
                    (authorMatches todo userEmail \<or> assigneeMatches todo userEmail)) todos"

section \<open>Commands on local TODOs\<close>

text \<open>
  A command is modelled between \<open>loadTodos\<close> and \<open>saveTodos\<close>: it takes the list the
  store holds and returns the list it saves, together with the document after its edit.
\<close>

text \<open>
  The loop of \<open>localTodo.convertTodo\<close> over \<open>todoRegex.exec(lineText)\<close>: \<open>s\<close> is the
  text from \<open>lastIndex\<close> on, and the result is what the loop pushes, in order.
\<close>

lemma commentPrefix_shorter: "r \<in> set (commentPrefix s) \<Longrightarrow> length r < length s"
  by (induction s rule: commentPrefix.induct) (auto split: if_splits)

lemma spacesGreedy_length: "r \<in> set (spacesGreedy s) \<Longrightarrow> length r \<le> length s"
  by (induction s) (auto split: if_splits)

lemma todoToken_shorter: "r \<in> set (todoToken s) \<Longrightarrow> length r < length s"
  by (induction s rule: todoToken.induct) (auto split: if_splits)

lemma optSeparator_length: "r \<in> set (optSeparator s) \<Longrightarrow> length r \<le> length s"
  by (cases s) (auto split: if_splits)

lemma lazyDots_append: "(m, r) \<in> set (lazyDots s) \<Longrightarrow> s = m @ r"
  by (induction s arbitrary: m) (auto split: if_splits)

lemma todoHeader_shorter: "r \<in> set (todoHeader s) \<Longrightarrow> length r < length s"
  unfolding todoHeader_def set_list_bind
  by (fastforce dest: commentPrefix_shorter spacesGreedy_length todoToken_shorter
        optSeparator_length)

lemma todoRegexAt_shorter: "(m, r) \<in> set (todoRegexAt s) \<Longrightarrow> length r < length s"
proof -
  assume "(m, r) \<in> set (todoRegexAt s)"
  then obtain s4 s5 where a: "s4 \<in> set (todoHeader s)" and b: "s5 \<in> set (spacesGreedy s4)"
    and c: "(m, r) \<in> set (lazyDots s5)"
    unfolding todoRegexAt_def set_list_bind by auto
  from c have "length r \<le> length s5" by (auto dest: lazyDots_append)
  with a b show ?thesis
    using todoHeader_shorter spacesGreedy_length by fastforce
qed

lemma execFrom_shorter: "execFrom i s = Some (j, m, r) \<Longrightarrow> length r < length s"
proof (induction i s rule: execFrom.induct)
  case (1 i s)
  show ?case
  proof (cases "todoRegexAt s")
    case Nil
    show ?thesis
    proof (cases s)
      case Nil
      with \<open>todoRegexAt s = []\<close> "1.prems" show ?thesis
        by (simp add: execFrom.simps [of i "[]"])
    next
      case (Cons c s')
      with \<open>todoRegexAt s = []\<close> "1.prems" have "execFrom (Suc i) s' = Some (j, m, r)"
        by (simp add: execFrom.simps [of i "c # s'"])
      with "1.IH" \<open>todoRegexAt s = []\<close> Cons have "length r < length s'" by simp
      with Cons show ?thesis by simp
    qed
  next
    case (Cons p ps)
    with "1.prems" have "p = (m, r)"
      by (cases p) (simp add: execFrom.simps [of i s])
    with Cons have "(m, r) \<in> set (todoRegexAt s)" by simp
    then show ?thesis by (rule todoRegexAt_shorter)
  qed
qed

function convertLoop :: "string \<Rightarrow> int \<Rightarrow> nat \<Rightarrow> string \<Rightarrow> Todo list" where
  "convertLoop file' lineNumber lastIndex s =
     (case execFrom lastIndex s of
        None \<Rightarrow> []
      | Some (index, group3, rest) \<Rightarrow>
          (let message' = trim group3
           in (if message' \<noteq> []
               then [\<lparr> file = file', line = lineNumber, column = Some index, type = Local,
                       message = message',
                       id' = Some (file' @ '':'' @ numberToString lineNumber @ '':'' @
                                   numberToString (int index)),
                       author = None, assignees = None, createdAt = None,
                       updatedAt = None \<rparr>]
               else []) @
              convertLoop file' lineNumber (lastIndex + (length s - length rest)) rest))"
  by pat_completeness auto
termination
  by (relation "measure (\<lambda>(f, l, i, s). length s)") (auto dest: execFrom_shorter)

declare convertLoop.simps [simp del]

text \<open>
  The removal of the comment from the source, which both convert commands spell out:
  the whole line when the trimmed line is the comment, the comment's range otherwise.
  \<open>indexOf\<close> finds the matched text, so its \<open>None\<close> branch is never taken.
\<close>

definition removeTodoComment :: "TextDocument \<Rightarrow> nat \<Rightarrow> string \<Rightarrow> TextDocument" where
  "removeTodoComment document n lineText =
     (if commentRegexTest (trim lineText) then deleteLineIncludingBreak document n
      else (case todoCommentMatch lineText of
              None \<Rightarrow> document
            | Some matched \<Rightarrow>
                (case indexOf lineText matched of
                   None \<Rightarrow> document
                 | Some commentStart \<Rightarrow>
                     deleteRange document n commentStart (commentStart + length matched))))"

text \<open>\<open>localTodo.convertTodo(document, lineNumber, text)\<close>\<close>

definition localConvertTodo ::
  "TextDocument \<Rightarrow> int \<Rightarrow> string \<Rightarrow> Todo list \<Rightarrow> error + (Todo list \<times> TextDocument)" where
  "localConvertTodo document lineNumber text existingTodos =
     (case lineAt document lineNumber of
        Inl e \<Rightarrow> Inl e
      | Inr lineText \<Rightarrow>
          (let file' = fsPath document;
               scanned = convertLoop file' lineNumber 0 lineText;
               todos =
                 (if length scanned = 0
                  then [\<lparr> file = file', line = lineNumber, column = None, type = Local,
                          message = trim (stripTodoHeader text),
                          id' = Some (file' @ '':'' @ numberToString lineNumber @ '':0''),
                          author = None, assignees = None, createdAt = None,
                          updatedAt = None \<rparr>]
                  else scanned);
               updatedTodos = existingTodos @ todos
           in Inr (updatedTodos, removeTodoComment document (nat lineNumber) lineText)))"

text \<open>\<open>localTodo.removeTodo(document, lineNumber, todo)\<close>\<close>

definition localRemoveTodo :: "TextDocument \<Rightarrow> int \<Rightarrow> Todo \<Rightarrow> Todo list \<Rightarrow> Todo list" where
  "localRemoveTodo document lineNumber todo todos =
     (let file' = fsPath document
      in filter (\<lambda>t. \<not> (file t = file' \<and> line t = lineNumber \<and> message t = message todo))
           todos)"

text \<open>
  \<open>localTodo.editTodo(document, lineNumber, todo)\<close>, the reverse conversion: the
  comment is \<open>`${indent}${commentPrefix} TODO: ${todo.message}`\<close>, where \<open>indent\<close> is
  group 1 of \<open>/^(\s*)/\<close> on the line.
\<close>

definition todoCommentText :: "TextDocument \<Rightarrow> string \<Rightarrow> Todo \<Rightarrow> string" where
  "todoCommentText document lineText todo =
     (let indent = takeWhile isWhiteSpace lineText;
          commentPrefix' = (if languageId document = ''python'' then ''#'' else ''//'')
      in indent @ commentPrefix' @ '' TODO: '' @ message todo)"

definition localEditTodo ::
  "TextDocument \<Rightarrow> int \<Rightarrow> Todo \<Rightarrow> Todo list \<Rightarrow> error + (Todo list \<times> TextDocument)" where
  "localEditTodo document lineNumber todo todos =
     (case lineAt document lineNumber of
        Inl e \<Rightarrow> Inl e
      | Inr lineText \<Rightarrow>
          (let todoComment = todoCommentText document lineText todo;
               edited = insertLineBefore document (nat lineNumber) todoComment;
               file' = fsPath document;
               updatedTodos = filter (\<lambda>t. \<not> (file t = file' \<and> line t = lineNumber)) todos
           in Inr (updatedTodos, edited)))"

text \<open>
  The validation callback of both move commands, and \<open>localTodo.moveTodo\<close>. The input
  box returns validated input only, so \<open>parseInt(input)\<close> is a number there; the branch
  for \<open>NaN\<close> is never taken.
\<close>

definition validateLineNumber :: "TextDocument \<Rightarrow> string \<Rightarrow> string option" where
  "validateLineNumber document value' =
     (case parseInt value' of
        None \<Rightarrow> Some (''Please enter a valid line number between 1 and '' @
                       numberToString (lineCount document))
      | Some num \<Rightarrow>
          if num < 1 \<or> num > lineCount document
          then Some (''Please enter a valid line number between 1 and '' @
                     numberToString (lineCount document))
          else None)"

definition localMoveTodo :: "TextDocument \<Rightarrow> Todo \<Rightarrow> string list \<Rightarrow> Todo list \<Rightarrow> Todo list" where
  "localMoveTodo document todo typed todos =
     (case showInputBox (validateLineNumber document) typed of
        None \<Rightarrow> todos
      | Some input \<Rightarrow>
          if input = [] then todos
          else (case parseInt input of
                  None \<Rightarrow> todos
                | Some num \<Rightarrow>
                    (let newLineNumber = num - 1
                     in case findIndex (\<lambda>t. id' t = id' todo) todos of
                          None \<Rightarrow> todos
                        | Some todoIndex \<Rightarrow>
                            todos[todoIndex := (todos ! todoIndex) \<lparr> line := newLineNumber \<rparr>])))"

section \<open>Commands on remote TODOs\<close>

text \<open>
  \<open>now\<close> is \<open>new Date().toISOString()\<close> and \<open>nowMs\<close> is \<open>Date.now()\<close> at the call;
  \<open>userInfo\<close> is the result of \<open>getGitUserInfo()\<close>.
\<close>

definition newRemoteTodo :: "User \<Rightarrow> string \<Rightarrow> nat \<Rightarrow> string \<Rightarrow> int \<Rightarrow> string \<Rightarrow> Todo" where
  "newRemoteTodo userInfo now nowMs file' lineNumber message' =
     \<lparr> file = file', line = lineNumber, column = None, type = Remote, message = message',
       id' = Some (''remote-'' @ file' @ '':'' @ numberToString lineNumber @ '':'' @
                   numberToString (int nowMs)),
       author = Some userInfo, assignees = Some [userInfo],
       createdAt = Some now, updatedAt = Some now \<rparr>"

text \<open>\<open>remoteTodo.convertTodo(document, lineNumber, text)\<close>\<close>

definition remoteConvertTodo ::
  "User option \<Rightarrow> string \<Rightarrow> nat \<Rightarrow> TextDocument \<Rightarrow> int \<Rightarrow> string \<Rightarrow> Todo list
   \<Rightarrow> error + (outcome \<times> Todo list \<times> TextDocument)" where
  "remoteConvertTodo userInfo now nowMs document lineNumber text existingTodos =
     (case userInfo of
        None \<Rightarrow>
          Inr (Rejected ''Git user information not available. Please configure git first.'',
               existingTodos, document)
      | Some user \<Rightarrow>
          (case lineAt document lineNumber of
             Inl e \<Rightarrow> Inl e
           | Inr lineText \<Rightarrow>
               (let message' = trim (stripTodoHeader text)
                in if message' = []
                   then Inr (Rejected ''No TODO message found.'', existingTodos, document)
                   else
                     (let todo = newRemoteTodo user now nowMs (fsPath document) lineNumber
                                   message';
                          updatedTodos = existingTodos @ [todo]
                      in Inr (Done, updatedTodos,
                              removeTodoComment document (nat lineNumber) lineText)))))"

text \<open>
  \<open>remoteTodo.addTodo()\<close>: \<open>messageInput\<close> is what the input box returns, \<open>editor\<close> the
  active editor's document path and cursor line, if there is an active editor.
\<close>

definition remoteAddTodo ::
  "User option \<Rightarrow> string \<Rightarrow> nat \<Rightarrow> string option \<Rightarrow> (string \<times> int) option \<Rightarrow> Todo list
   \<Rightarrow> outcome \<times> Todo list" where
  "remoteAddTodo userInfo now nowMs messageInput editor existingTodos =
     (case userInfo of
        None \<Rightarrow>
          (Rejected ''Git user information not available. Please configure git first.'',
           existingTodos)
      | Some user \<Rightarrow>
          (case messageInput of
             None \<Rightarrow> (Returned, existingTodos)
           | Some message' \<Rightarrow>
               if message' = [] then (Returned, existingTodos)
               else (case editor of
                       None \<Rightarrow> (Rejected ''No active editor found.'', existingTodos)
                     | Some (file', lineNumber) \<Rightarrow>
                         (Done, existingTodos @
                            [newRemoteTodo user now nowMs file' lineNumber message']))))"

text \<open>\<open>remoteTodo.removeTodo(document, lineNumber, todo)\<close>\<close>

definition remoteRemoveTodo :: "Todo \<Rightarrow> Todo list \<Rightarrow> Todo list" where
  "remoteRemoveTodo todo allRemoteTodos = filter (\<lambda>t. id' t \<noteq> id' todo) allRemoteTodos"

text \<open>\<open>remoteTodo.editTodo(document, lineNumber, todo)\<close>; \<open>newMessage\<close> is the input box's result.\<close>

definition remoteEditTodo :: "string \<Rightarrow> Todo \<Rightarrow> string option \<Rightarrow> Todo list \<Rightarrow> Todo list" where
  "remoteEditTodo now todo newMessage allRemoteTodos =
     (case newMessage of
        None \<Rightarrow> allRemoteTodos
      | Some newMessage' \<Rightarrow>
          if newMessage' = [] \<or> newMessage' = message todo then allRemoteTodos
          else (case findIndex (\<lambda>t. id' t = id' todo) allRemoteTodos of
                  None \<Rightarrow> allRemoteTodos
                | Some todoIndex \<Rightarrow>
                    allRemoteTodos[todoIndex := (allRemoteTodos ! todoIndex)
                      \<lparr> message := newMessage', updatedAt := Some now \<rparr>]))"

text \<open>\<open>remoteTodo.moveTodo(document, lineNumber, todo)\<close>\<close>

definition remoteMoveTodo ::
  "string \<Rightarrow> TextDocument \<Rightarrow> Todo \<Rightarrow> string list \<Rightarrow> Todo list \<Rightarrow> Todo list" where
  "remoteMoveTodo now document todo typed allRemoteTodos =
     (case showInputBox (validateLineNumber document) typed of
        None \<Rightarrow> allRemoteTodos
      | Some input \<Rightarrow>
          if input = [] then allRemoteTodos
          else (case parseInt input of
                  None \<Rightarrow> allRemoteTodos
                | Some num \<Rightarrow>
                    (let newLineNumber = num - 1
                     in case findIndex (\<lambda>t. id' t = id' todo) allRemoteTodos of
                          None \<Rightarrow> allRemoteTodos
                        | Some todoIndex \<Rightarrow>
                            allRemoteTodos[todoIndex := (allRemoteTodos ! todoIndex)
                              \<lparr> line := newLineNumber, updatedAt := Some now \<rparr>])))"

text \<open>
  \<open>remoteTodo.manageTeam()\<close>: the options are "Add Team Member", one "Remove" per
  member and "View All Members"; \<open>teamPick\<close> is the user's choice among them.
\<close>

datatype TeamOption = AddMemberOption | RemoveMemberOption User | ViewMembersOption

record TeamInputs =
  teamPick :: "nat option"
  memberEmailTyped :: "string list"
  memberNameInput :: "string option"

definition validateMemberEmail :: "User list \<Rightarrow> string \<Rightarrow> string option" where
  "validateMemberEmail teamMembers value' =
     (if value' = [] \<or> trim value' = [] then Some ''Email is required''
      else if CHR ''@'' \<notin> set value' then Some ''Please enter a valid email address''
      else if list_ex (\<lambda>m. trim (toLowerCase (email m)) = trim (toLowerCase value'))
                teamMembers
      then Some ''This person is already in the team''
      else None)"

definition manageTeam :: "TeamInputs \<Rightarrow> User list \<Rightarrow> User list" where
  "manageTeam ui teamMembers =
     (case showQuickPick
             ([AddMemberOption] @ map RemoveMemberOption teamMembers @ [ViewMembersOption])
             (teamPick ui) of
        None \<Rightarrow> teamMembers
      | Some AddMemberOption \<Rightarrow>
          (case showInputBox (validateMemberEmail teamMembers) (memberEmailTyped ui) of
             None \<Rightarrow> teamMembers
           | Some memberEmail \<Rightarrow>
               if memberEmail = [] then teamMembers
               else (case memberNameInput ui of
                       None \<Rightarrow> teamMembers
                     | Some memberName \<Rightarrow>
                         if memberName = [] then teamMembers
                         else snd (addTeamMember memberName memberEmail teamMembers)))
      | Some (RemoveMemberOption member) \<Rightarrow> snd (removeTeamMember (email member) teamMembers)
      | Some ViewMembersOption \<Rightarrow> teamMembers)"

text \<open>
  \<open>remoteTodo.assignTodo(document, lineNumber, todo)\<close>. The options are one "Remove"
  per current assignee, one "Add" per team member who is not an assignee, "Add New Team
  Member" and "Manage Team"; \<open>pick\<close> is the user's choice among them.
\<close>

datatype AssignOption =
  RemoveOption User | AddExistingOption User | AddNewOption | ManageTeamOption

record AssignInputs =
  pick :: "nat option"
  emailInputs :: "string option list"
  nameInput :: "string option"
  addToTeamPick :: "nat option"
  teamInputs :: TeamInputs

definition assignOptions :: "User list \<Rightarrow> User list \<Rightarrow> AssignOption list" where
  "assignOptions currentAssignees teamMembers =
     map RemoveOption currentAssignees @
     map AddExistingOption
       (filter (\<lambda>member. \<not> list_ex (\<lambda>a. email a = email member) currentAssignees)
          teamMembers) @
     [AddNewOption, ManageTeamOption]"

text \<open>
  The validation loop of "add new": each round reads one result of the email input box;
  a missing or empty result cancels, a result that fails a check counts one attempt, and
  the loop gives up at three attempts.
\<close>

datatype EmailPrompt = EmailCancelled | EmailFailed | EmailValid string

fun promptAssigneeEmail :: "User list \<Rightarrow> nat \<Rightarrow> string option list \<Rightarrow> EmailPrompt" where
  "promptAssigneeEmail currentAssignees validationAttempts [] =
     (if validationAttempts < 3 then EmailCancelled else EmailFailed)"
| "promptAssigneeEmail currentAssignees validationAttempts (input # inputs) =
     (if validationAttempts < 3 then
        (if falsy input then EmailCancelled
         else (let trimmedEmail = trim (case input of None \<Rightarrow> [] | Some e \<Rightarrow> e)
               in if trimmedEmail = []
                  then promptAssigneeEmail currentAssignees (validationAttempts + 1) inputs
                  else if CHR ''@'' \<notin> set trimmedEmail
                  then promptAssigneeEmail currentAssignees (validationAttempts + 1) inputs
                  else if list_ex (\<lambda>a. trim (toLowerCase (email a)) = toLowerCase trimmedEmail)
                            currentAssignees
                  then promptAssigneeEmail currentAssignees (validationAttempts + 1) inputs
                  else EmailValid trimmedEmail))
      else EmailFailed)"

text \<open>
  \<open>currentAssignees\<close> is \<open>currentTodo.assignees || []\<close>: the record's own array when the
  record has one, so that \<open>currentAssignees.push(user)\<close> changes the record, and a fresh
  array otherwise, so that the push is lost.
\<close>

definition pushAssignee :: "User \<Rightarrow> Todo \<Rightarrow> Todo" where
  "pushAssignee user t = t \<lparr> assignees := map_option (\<lambda>as. as @ [user]) (assignees t) \<rparr>"

definition remoteAssignTodo ::
  "string \<Rightarrow> Todo \<Rightarrow> AssignInputs \<Rightarrow> Todo list \<Rightarrow> User list
   \<Rightarrow> outcome \<times> Todo list \<times> User list" where
  "remoteAssignTodo now todo ui allRemoteTodos teamMembers =
     (case findIndex (\<lambda>t. id' t = id' todo) allRemoteTodos of
        None \<Rightarrow> (Returned, allRemoteTodos, teamMembers)
      | Some todoIndex \<Rightarrow>
          (let currentTodo = allRemoteTodos ! todoIndex;
               currentAssignees = (case assignees currentTodo of None \<Rightarrow> [] | Some as \<Rightarrow> as)
           in case showQuickPick (assignOptions currentAssignees teamMembers) (pick ui) of
                None \<Rightarrow> (Returned, allRemoteTodos, teamMembers)
              | Some (AddExistingOption user) \<Rightarrow>
                  (Done,
                   allRemoteTodos[todoIndex := (pushAssignee user currentTodo)
                     \<lparr> updatedAt := Some now \<rparr>],
                   teamMembers)
              | Some AddNewOption \<Rightarrow>
                  (case promptAssigneeEmail currentAssignees 0 (emailInputs ui) of
                     EmailCancelled \<Rightarrow>
                       (Rejected ''Assignee addition cancelled.'', allRemoteTodos, teamMembers)
                   | EmailFailed \<Rightarrow>
                       (Rejected ''Assignee addition cancelled after 3 failed attempts.'',
                        allRemoteTodos, teamMembers)
                   | EmailValid assigneeEmail \<Rightarrow>
                       (case nameInput ui of
                          None \<Rightarrow> (Returned, allRemoteTodos, teamMembers)
                        | Some assigneeName \<Rightarrow>
                            if assigneeName = [] then (Returned, allRemoteTodos, teamMembers)
                            else
                              (let newAssignee =
                                     \<lparr> name = trim assigneeName, email = assigneeEmail \<rparr>
                               in (Done,
                                   allRemoteTodos[todoIndex :=
                                     (pushAssignee newAssignee currentTodo)
                                     \<lparr> updatedAt := Some now \<rparr>],
                                   if showQuickPick [''Yes'', ''No''] (addToTeamPick ui) =
                                        Some ''Yes''
                                   then snd (addTeamMember (trim assigneeName) assigneeEmail
                                               teamMembers)
                                   else teamMembers))))
              | Some (RemoveOption assigneeToRemove) \<Rightarrow>
                  (let filteredAssignees =
                         filter (\<lambda>a. email a \<noteq> email assigneeToRemove) currentAssignees
                   in if length filteredAssignees = 0
                      then (Rejected
                              ''Cannot remove the last assignee. At least one assignee is required.'',
                            allRemoteTodos, teamMembers)
                      else (Done,
                            allRemoteTodos[todoIndex := currentTodo
                              \<lparr> assignees := Some filteredAssignees, updatedAt := Some now \<rparr>],
                            teamMembers))
              | Some ManageTeamOption \<Rightarrow>
                  (Returned, allRemoteTodos, manageTeam (teamInputs ui) teamMembers)))"

section \<open>Invariants of a store\<close>

text \<open>A record has at least one assignee; the ids of a store are pairwise different.\<close>

definition hasAssignee :: "Todo \<Rightarrow> bool" where
  "hasAssignee t = (case assignees t of None \<Rightarrow> False | Some as \<Rightarrow> as \<noteq> [])"

definition uniqueIds :: "Todo list \<Rightarrow> bool" where
  "uniqueIds todos = distinct (map id' todos)"

section \<open>Example inputs\<close>

definition exampleRemote :: Todo where
  "exampleRemote =
     \<lparr> file = ''/p/a.ts'', line = 3, column = None, type = Remote, message = ''fix'',
       id' = Some ''remote-/p/a.ts:3:1700000000000'',
       author = Some \<lparr> name = ''A'', email = ''a@x.com'' \<rparr>,
       assignees = Some [\<lparr> name = ''A'', email = ''a@x.com'' \<rparr>,
                         \<lparr> name = ''B'', email = ''b@x.com'' \<rparr>],
       createdAt = Some ''2024-01-01T00:00:00.000Z'',
       updatedAt = Some ''2024-01-01T00:00:00.000Z'' \<rparr>"

definition exampleLocalWithAuthor :: Todo where
  "exampleLocalWithAuthor = exampleRemote \<lparr> type := Local \<rparr>"

definition localTodoAt :: "int \<Rightarrow> nat option \<Rightarrow> string \<Rightarrow> string \<Rightarrow> Todo" where
  "localTodoAt l c m i =
     \<lparr> file = ''/p/a.ts'', line = l, column = c, type = Local, message = m, id' = Some i,
       author = None, assignees = None, createdAt = None, updatedAt = None \<rparr>"

definition docOf :: "string list \<Rightarrow> TextDocument" where
  "docOf ls = \<lparr> fsPath = ''/p/a.ts'', languageId = ''typescript'', lines = ls \<rparr>"

definition exampleSolo :: Todo where
  "exampleSolo = exampleRemote \<lparr> assignees := Some [\<lparr> name = ''A'', email = ''a@x.com'' \<rparr>] \<rparr>"

definition pickFirst :: AssignInputs where
  "pickFirst = \<lparr> pick = Some 0, emailInputs = [], nameInput = None, addToTeamPick = None,
     teamInputs = \<lparr> teamPick = None, memberEmailTyped = [], memberNameInput = None \<rparr> \<rparr>"

section \<open>Evaluating the regular expressions\<close>

lemma docOf_fields:
  "fsPath (docOf ls) = ''/p/a.ts''" "languageId (docOf ls) = ''typescript''"
  "lines (docOf ls) = ls"
  by (simp_all add: docOf_def)

lemmas regex_defs = todoRegexAt_def todoHeader_def nextTodoOrEnd_def isWhiteSpace_def
  isLineTerminator_def stripTodoHeader_def isTodoComment_def commentRegexTest_def dotsToEnd_def

lemma exec_two_first:
  "execFrom i ''// TODO: a // TODO: b'' = Some (i, ''a '', ''// TODO: b'')"
  by (simp add: execFrom.simps regex_defs)

lemma exec_two_second: "execFrom i ''// TODO: b'' = Some (i, ''b'', [])"
  by (simp add: execFrom.simps regex_defs)

lemma exec_end: "execFrom i [] = None"
  by (simp add: execFrom.simps regex_defs)

lemma exec_single_a: "execFrom i ''// TODO: a'' = Some (i, ''a'', [])"
  by (simp add: execFrom.simps regex_defs)

lemma exec_empty_message: "execFrom i ''// TODO:'' = Some (i, [], [])"
  by (simp add: execFrom.simps regex_defs)

lemma convertLoop_two:
  "convertLoop ''/p/a.ts'' 0 0 ''// TODO: a // TODO: b'' =
     [localTodoAt 0 (Some 0) ''a'' ''/p/a.ts:0:0'', localTodoAt 0 (Some 11) ''b'' ''/p/a.ts:0:11'']"
  by (simp add: convertLoop.simps [of _ _ _ "_ # _"] convertLoop.simps [of _ _ _ "[]"]
        exec_two_first exec_two_second exec_end trim_def isWhiteSpace_def
        numberToString_def natToString.simps localTodoAt_def)

lemma convertLoop_empty_message: "convertLoop ''/p/a.ts'' 0 0 ''// TODO:'' = []"
  by (simp add: convertLoop.simps [of _ _ _ "_ # _"] convertLoop.simps [of _ _ _ "[]"]
        exec_empty_message exec_end trim_def)

lemma convertLoop_single_a:
  "convertLoop ''/p/a.ts'' 0 0 ''// TODO: a'' = [localTodoAt 0 (Some 0) ''a'' ''/p/a.ts:0:0'']"
  by (simp add: convertLoop.simps [of _ _ _ "_ # _"] convertLoop.simps [of _ _ _ "[]"]
        exec_single_a exec_end trim_def isWhiteSpace_def numberToString_def natToString.simps localTodoAt_def)

lemma convertLoop_single_b:
  "convertLoop ''/p/a.ts'' 0 0 ''// TODO: b'' = [localTodoAt 0 (Some 0) ''b'' ''/p/a.ts:0:0'']"
  by (simp add: convertLoop.simps [of _ _ _ "_ # _"] convertLoop.simps [of _ _ _ "[]"]
        exec_two_second exec_end trim_def isWhiteSpace_def numberToString_def natToString.simps localTodoAt_def)

lemma removeTodoComment_whole_line:
  "removeTodoComment (docOf (''// TODO:'' # ls)) 0 ''// TODO:'' =
     (if ls = [] then docOf [[]] else docOf ls)"
  "removeTodoComment (docOf (''// TODO: a'' # ls)) 0 ''// TODO: a'' =
     (if ls = [] then docOf [[]] else docOf ls)"
  "removeTodoComment (docOf (''// TODO: b'' # ls)) 0 ''// TODO: b'' =
     (if ls = [] then docOf [[]] else docOf ls)"
  by (simp_all add: removeTodoComment_def trim_def regex_defs deleteLineIncludingBreak_def
        docOf_def)

section \<open>The reverse conversion\<close>

text \<open>
  C1: the reverse conversion inserts the comment line, with indentation and prefix,
  before the record's line, but it deletes every record stored on that file and line,
  whatever its message: reversing the record "a" of a line that also holds the record
  "b" leaves an empty store, where the claim keeps "b".
\<close>

theorem localEditTodo_drops_other_messages:
  "localEditTodo (docOf [''let x = 1;'', ''  f();'']) 1
     (localTodoAt 1 (Some 0) ''a'' ''/p/a.ts:1:0'')
     [localTodoAt 1 (Some 0) ''a'' ''/p/a.ts:1:0'',
      localTodoAt 1 (Some 11) ''b'' ''/p/a.ts:1:11''] =
   Inr ([], docOf [''let x = 1;'', ''  // TODO: a'', ''  f();''])
   \<and> localEditTodo (docOf [''x = 1'', ''  f()''] \<lparr> languageId := ''python'' \<rparr>) 1
     (localTodoAt 1 (Some 0) ''a'' ''/p/a.ts:1:0'')
     [localTodoAt 1 (Some 0) ''a'' ''/p/a.ts:1:0'',
      localTodoAt 1 (Some 11) ''b'' ''/p/a.ts:1:11'',
      localTodoAt 0 None ''c'' ''/p/a.ts:0:0''] =
   Inr ([localTodoAt 0 None ''c'' ''/p/a.ts:0:0''],
        docOf [''x = 1'', ''  # TODO: a'', ''  f()''] \<lparr> languageId := ''python'' \<rparr>)"
  by (simp add: localEditTodo_def lineAt_def lineCount_def docOf_def localTodoAt_def
        todoCommentText_def insertLineBefore_def isWhiteSpace_def)

section \<open>Empty messages\<close>

text \<open>
  C2: the line "// TODO:" is detected as a TODO comment, the scan of the local convert
  command finds no annotation with a message in it, and the fallback then stores a record
  whose message is empty: the fallback has no check of the message, where the scan and the
  remote convert command have one. The remote message edit stores a message of blanks.
\<close>

theorem localConvertTodo_stores_empty_message:
  "isTodoComment ''// TODO:''
   \<and> convertLoop ''/p/a.ts'' 0 0 ''// TODO:'' = []
   \<and> localConvertTodo (docOf [''// TODO:'', ''let x = 1;'']) 0 ''// TODO:'' [] =
       Inr ([localTodoAt 0 None [] ''/p/a.ts:0:0''], docOf [''let x = 1;''])
   \<and> remoteEditTodo now exampleRemote (Some ''   '') [exampleRemote] =
       [exampleRemote \<lparr> message := ''   '', updatedAt := Some now \<rparr>]
   \<and> trim ''   '' = []"
proof -
  have detected: "isTodoComment ''// TODO:''"
    by (simp add: regex_defs)
  have converted: "localConvertTodo (docOf [''// TODO:'', ''let x = 1;'']) 0 ''// TODO:'' [] =
       Inr ([localTodoAt 0 None [] ''/p/a.ts:0:0''], docOf [''let x = 1;''])"
    by (simp add: localConvertTodo_def Let_def lineAt_def lineCount_def docOf_fields
          convertLoop_empty_message removeTodoComment_whole_line localTodoAt_def
          numberToString_def natToString.simps trim_def regex_defs)
  have edited: "remoteEditTodo now exampleRemote (Some ''   '') [exampleRemote] =
       [exampleRemote \<lparr> message := ''   '', updatedAt := Some now \<rparr>]"
    by (simp add: remoteEditTodo_def exampleRemote_def)
  have blank: "trim ''   '' = []"
    by (simp add: trim_def isWhiteSpace_def)
  from detected convertLoop_empty_message converted edited blank show ?thesis by blast
qed

section \<open>The branches that are never taken\<close>

lemma indexOf_suffix: "indexOf (p @ m) m \<noteq> None"
  by (induction p) (cases m, auto)

lemma todoCommentMatch_suffix: "todoCommentMatch s = Some m \<Longrightarrow> \<exists>p. s = p @ m"
proof (induction s)
  case Nil
  then show ?case by (simp split: if_splits)
next
  case (Cons c s)
  show ?case
  proof (cases "List.bind (todoHeader (c # s)) dotsToEnd \<noteq> []")
    case True
    with Cons.prems show ?thesis by simp
  next
    case False
    with Cons.prems have "todoCommentMatch s = Some m" by simp
    with Cons.IH obtain p where "s = p @ m" by blast
    then have "c # s = (c # p) @ m" by simp
    then show ?thesis by blast
  qed
qed

lemma todoCommentMatch_indexOf:
  "todoCommentMatch s = Some m \<Longrightarrow> \<exists>commentStart. indexOf s m = Some commentStart"
  using indexOf_suffix todoCommentMatch_suffix by fastforce

section \<open>Lookup by id\<close>

lemma findIndex_Some:
  "findIndex p xs = Some k \<Longrightarrow> k < length xs \<and> p (xs ! k) \<and> (\<forall>j<k. \<not> p (xs ! j))"
proof (induction xs arbitrary: k)
  case Nil
  then show ?case by simp
next
  case (Cons x xs)
  show ?case
  proof (cases "p x")
    case True
    with Cons.prems show ?thesis by simp
  next
    case False
    with Cons.prems obtain k' where k: "findIndex p xs = Some k'" "k = Suc k'"
      by auto
    from Cons.IH [OF k(1)] False k(2) show ?thesis
      by (auto simp: nth_Cons split: nat.splits)
  qed
qed

lemma findIndex_None: "findIndex p xs = None \<longleftrightarrow> (\<forall>x \<in> set xs. \<not> p x)"
  by (induction xs) auto

lemma list_all_update: "list_all P xs \<Longrightarrow> P y \<Longrightarrow> list_all P (xs[k := y])"
  by (auto simp: list_all_iff dest: set_update_subset_insert [THEN subsetD])

section \<open>Remove\<close>

text \<open>
  C7: the local remove command deletes exactly the records whose file is the document's
  path, whose line is the command's line and whose message is the given record's
  message; the remote remove command deletes exactly the records whose id is the given
  record's id. Every record that matches is deleted, every other record is kept, and when
  no record matches the store is returned as it was.
\<close>

theorem remove_matches:
  "(t \<in> set (localRemoveTodo document lineNumber todo todos) \<longleftrightarrow>
      t \<in> set todos \<and>
      \<not> (file t = fsPath document \<and> line t = lineNumber \<and> message t = message todo))
   \<and> (r \<in> set (remoteRemoveTodo rtodo remotes) \<longleftrightarrow> r \<in> set remotes \<and> id' r \<noteq> id' rtodo)
   \<and> ((\<forall>t \<in> set todos.
          \<not> (file t = fsPath document \<and> line t = lineNumber \<and> message t = message todo))
        \<longrightarrow> localRemoveTodo document lineNumber todo todos = todos)
   \<and> ((\<forall>t \<in> set remotes. id' t \<noteq> id' rtodo) \<longrightarrow> remoteRemoveTodo rtodo remotes = remotes)"
  by (auto simp: localRemoveTodo_def remoteRemoveTodo_def filter_id_conv)

theorem remove_matches_witness:
  "localRemoveTodo (docOf [''x'']) 4 (localTodoAt 4 None ''fix bug'' ''/p/a.ts:4:0'')
     [localTodoAt 4 None ''other'' ''/p/a.ts:4:0''] =
     [localTodoAt 4 None ''other'' ''/p/a.ts:4:0'']
   \<and> remoteRemoveTodo (exampleRemote \<lparr> id' := Some ''remote-gone'' \<rparr>) [exampleRemote] =
     [exampleRemote]
   \<and> localRemoveTodo (docOf [''x'']) 4 (localTodoAt 4 None ''fix bug'' ''/p/a.ts:4:0'')
     [localTodoAt 4 None ''fix bug'' ''/p/a.ts:4:0''] = []"
  using remove_matches [where document = "docOf [''x'']" and lineNumber = 4
      and todo = "localTodoAt 4 None ''fix bug'' ''/p/a.ts:4:0''"
      and todos = "[localTodoAt 4 None ''other'' ''/p/a.ts:4:0'']"
      and rtodo = "exampleRemote \<lparr> id' := Some ''remote-gone'' \<rparr>"
      and remotes = "[exampleRemote]"]
  by (simp add: localTodoAt_def exampleRemote_def localRemoveTodo_def docOf_def)

section \<open>Remote conversion without an identity\<close>

text \<open>
  C9: there is no identity when git prints no name or no email (or cannot be asked), and
  then the remote convert command stops with an error message: the remote store and the
  document are returned as they were.
\<close>

theorem remoteConvertTodo_needs_identity:
  "(getGitUserInfo git = None \<longleftrightarrow>
      (case git of None \<Rightarrow> True | Some (n, e) \<Rightarrow> trim n = [] \<or> trim e = []))
   \<and> (getGitUserInfo git = None \<longrightarrow>
        remoteConvertTodo (getGitUserInfo git) now nowMs document lineNumber text existingTodos =
          Inr (Rejected ''Git user information not available. Please configure git first.'',
               existingTodos, document))"
  by (auto simp: getGitUserInfo_def remoteConvertTodo_def Let_def split: option.splits)

theorem remoteConvertTodo_needs_identity_witness:
  "getGitUserInfo (Some (''Ann'', ''  '')) = None
   \<and> remoteConvertTodo (getGitUserInfo (Some (''Ann'', ''  ''))) ''2024-01-01T00:00:00.000Z''
        1700000000000 (docOf [''// TODO: a'']) 0 ''// TODO: a'' [exampleRemote] =
      Inr (Rejected ''Git user information not available. Please configure git first.'',
           [exampleRemote], docOf [''// TODO: a''])"
  using remoteConvertTodo_needs_identity [of "Some (''Ann'', ''  '')"
      "''2024-01-01T00:00:00.000Z''" 1700000000000 "docOf [''// TODO: a'']" 0 "''// TODO: a''"
      "[exampleRemote]"]
  by (simp add: trim_def isWhiteSpace_def)

section \<open>Assignees\<close>

lemma newRemoteTodo_fields:
  "author (newRemoteTodo u now ms f l m) = Some u"
  "assignees (newRemoteTodo u now ms f l m) = Some [u]"
  "message (newRemoteTodo u now ms f l m) = m"
  "line (newRemoteTodo u now ms f l m) = l"
  "file (newRemoteTodo u now ms f l m) = f"
  "type (newRemoteTodo u now ms f l m) = Remote"
  "id' (newRemoteTodo u now ms f l m) =
     Some (''remote-'' @ f @ '':'' @ numberToString l @ '':'' @ numberToString (int ms))"
  by (simp_all add: newRemoteTodo_def)

lemma hasAssignee_newRemoteTodo: "hasAssignee (newRemoteTodo u now ms f l m)"
  by (simp add: hasAssignee_def newRemoteTodo_fields)

lemma remoteConvertTodo_Done:
  assumes "remoteConvertTodo userInfo now ms d n text st = Inr (Done, st', d')"
  shows "\<exists>u m. userInfo = Some u \<and> m \<noteq> [] \<and> m = trim (stripTodoHeader text) \<and>
           st' = st @ [newRemoteTodo u now ms (fsPath d) n m]"
  using assms
  by (auto simp: remoteConvertTodo_def Let_def split: option.splits sum.splits if_splits)

lemma remoteConvertTodo_not_Done:
  assumes "remoteConvertTodo userInfo now ms d n text st = Inr (oc, st', d')" "oc \<noteq> Done"
  shows "st' = st \<and> d' = d"
  using assms
  by (auto simp: remoteConvertTodo_def Let_def split: option.splits sum.splits if_splits)

lemma remoteAddTodo_cases:
  "remoteAddTodo userInfo now ms input editor st = (oc, st') \<Longrightarrow>
     (oc \<noteq> Done \<and> st' = st) \<or>
     (\<exists>u m f l. oc = Done \<and> userInfo = Some u \<and> input = Some m \<and> m \<noteq> [] \<and> editor = Some (f, l) \<and>
        st' = st @ [newRemoteTodo u now ms f l m])"
  by (auto simp: remoteAddTodo_def split: option.splits if_splits)

lemma hasAssignee_update [simp]:
  "hasAssignee (t \<lparr> updatedAt := x \<rparr>) = hasAssignee t"
  "hasAssignee (t \<lparr> line := l \<rparr>) = hasAssignee t"
  "hasAssignee (t \<lparr> message := m \<rparr>) = hasAssignee t"
  by (simp_all add: hasAssignee_def)

lemma hasAssignee_pushAssignee: "hasAssignee t \<Longrightarrow> hasAssignee (pushAssignee u t)"
  by (auto simp: hasAssignee_def pushAssignee_def split: option.splits)

lemma update_found_hasAssignee:
  assumes "list_all hasAssignee st" "findIndex p st = Some k" "\<And>t. hasAssignee t \<Longrightarrow> hasAssignee (f t)"
  shows "list_all hasAssignee (st[k := f (st ! k)])"
proof -
  from assms(2) have "k < length st" by (auto dest: findIndex_Some)
  with assms(1) have "hasAssignee (st ! k)" by (simp add: list_all_length)
  then have "hasAssignee (f (st ! k))" by (rule assms(3))
  with assms(1) show ?thesis by (rule list_all_update)
qed

lemma remoteEditTodo_hasAssignee:
  assumes "list_all hasAssignee st"
  shows "list_all hasAssignee (remoteEditTodo now todo input st)"
proof (cases "findIndex (\<lambda>t. id' t = id' todo) st")
  case None
  with assms show ?thesis by (simp add: remoteEditTodo_def split: option.splits)
next
  case (Some k)
  have "list_all hasAssignee (st[k := (\<lambda>t. t \<lparr> message := m, updatedAt := Some now \<rparr>) (st ! k)])" for m
    using assms Some by (rule update_found_hasAssignee) simp
  with assms Some show ?thesis by (simp add: remoteEditTodo_def split: option.splits)
qed

lemma remoteMoveTodo_hasAssignee:
  assumes "list_all hasAssignee st"
  shows "list_all hasAssignee (remoteMoveTodo now d todo typed st)"
proof (cases "findIndex (\<lambda>t. id' t = id' todo) st")
  case None
  with assms show ?thesis by (simp add: remoteMoveTodo_def split: option.splits)
next
  case (Some k)
  have "list_all hasAssignee (st[k := (\<lambda>t. t \<lparr> line := l, updatedAt := Some now \<rparr>) (st ! k)])" for l
    using assms Some by (rule update_found_hasAssignee) simp
  with assms Some show ?thesis by (simp add: remoteMoveTodo_def Let_def split: option.splits)
qed

lemma remoteRemoveTodo_hasAssignee:
  "list_all hasAssignee st \<Longrightarrow> list_all hasAssignee (remoteRemoveTodo todo st)"
  by (auto simp: remoteRemoveTodo_def list_all_iff)

lemma remoteAssignTodo_hasAssignee:
  assumes "list_all hasAssignee st"
  shows "list_all hasAssignee (fst (snd (remoteAssignTodo now todo ui st team)))"
proof (cases "findIndex (\<lambda>t. id' t = id' todo) st")
  case None
  with assms show ?thesis by (simp add: remoteAssignTodo_def)
next
  case found: (Some k)
  let ?cur = "case assignees (st ! k) of None \<Rightarrow> [] | Some as \<Rightarrow> as"
  have upd: "list_all hasAssignee (st[k := f (st ! k)])"
    if "\<And>t. hasAssignee t \<Longrightarrow> hasAssignee (f t)" for f
    using assms found that by (rule update_found_hasAssignee)
  have push: "list_all hasAssignee (st[k := (pushAssignee u (st ! k)) \<lparr> updatedAt := Some now \<rparr>])"
    for u
    using upd [of "\<lambda>t. (pushAssignee u t) \<lparr> updatedAt := Some now \<rparr>"]
    by (simp add: hasAssignee_pushAssignee)
  show ?thesis
  proof (cases "showQuickPick (assignOptions ?cur team) (pick ui)")
    case None
    with assms found show ?thesis by (simp add: remoteAssignTodo_def)
  next
    case picked: (Some opt)
    show ?thesis
    proof (cases opt)
      case (RemoveOption a)
      have "list_all hasAssignee
              (st[k := (st ! k) \<lparr> assignees := Some (filter (\<lambda>b. email b \<noteq> email a) ?cur),
                                  updatedAt := Some now \<rparr>])"
        if "filter (\<lambda>b. email b \<noteq> email a) ?cur \<noteq> []"
        using assms that by (intro list_all_update) (simp_all add: hasAssignee_def)
      with assms found picked RemoveOption show ?thesis
        by (simp add: remoteAssignTodo_def Let_def)
    next
      case (AddExistingOption u)
      with assms found picked push show ?thesis
        by (simp add: remoteAssignTodo_def Let_def)
    next
      case AddNewOption
      with assms found picked push show ?thesis
        by (simp add: remoteAssignTodo_def Let_def split: EmailPrompt.splits option.splits)
    next
      case ManageTeamOption
      with assms found picked show ?thesis
        by (simp add: remoteAssignTodo_def)
    qed
  qed
qed

lemma remoteConvertTodo_hasAssignee:
  assumes "list_all hasAssignee st" "remoteConvertTodo userInfo now ms d n text st = Inr (oc, st', d')"
  shows "list_all hasAssignee st'"
proof (cases "oc = Done")
  case True
  with assms(2) obtain u m where "st' = st @ [newRemoteTodo u now ms (fsPath d) n m]"
    by (auto dest: remoteConvertTodo_Done)
  with assms(1) show ?thesis by (simp add: hasAssignee_newRemoteTodo)
next
  case False
  with assms show ?thesis by (auto dest: remoteConvertTodo_not_Done)
qed

lemma remoteAddTodo_hasAssignee:
  assumes "list_all hasAssignee st"
  shows "list_all hasAssignee (snd (remoteAddTodo userInfo now ms input editor st))"
proof -
  obtain oc st' where r: "remoteAddTodo userInfo now ms input editor st = (oc, st')"
    by (cases "remoteAddTodo userInfo now ms input editor st")
  from remoteAddTodo_cases [OF r] assms have "list_all hasAssignee st'"
    by (auto simp: hasAssignee_newRemoteTodo)
  with r show ?thesis by simp
qed

lemma remoteAssignTodo_last_assignee:
  assumes "findIndex (\<lambda>t. id' t = id' todo) st = Some k"
    and "showQuickPick (assignOptions (case assignees (st ! k) of None \<Rightarrow> [] | Some as \<Rightarrow> as) team)
           (pick ui) = Some (RemoveOption a)"
    and "filter (\<lambda>b. email b \<noteq> email a) (case assignees (st ! k) of None \<Rightarrow> [] | Some as \<Rightarrow> as) = []"
  shows "remoteAssignTodo now todo ui st team =
           (Rejected ''Cannot remove the last assignee. At least one assignee is required.'',
            st, team)"
  using assms by (simp add: remoteAssignTodo_def Let_def)

text \<open>
  C4: a remote record is created with its author as its only assignee, by the convert
  command and by the add command; the assign command refuses, with a warning and without
  changing the store or the team, a removal that would leave the record without an
  assignee; and every command on the remote store keeps "each record has an assignee".
\<close>

theorem assignee_invariant:
  "(remoteConvertTodo userInfo now ms d n text st = Inr (Done, st', d') \<longrightarrow>
      (\<exists>u t. userInfo = Some u \<and> st' = st @ [t] \<and> author t = Some u \<and> assignees t = Some [u]))
   \<and> (remoteAddTodo userInfo now ms input editor st = (Done, st'') \<longrightarrow>
      (\<exists>u t. userInfo = Some u \<and> st'' = st @ [t] \<and> author t = Some u \<and> assignees t = Some [u]))
   \<and> (findIndex (\<lambda>t. id' t = id' todo) st = Some k \<and>
       showQuickPick
         (assignOptions (case assignees (st ! k) of None \<Rightarrow> [] | Some as \<Rightarrow> as) team)
         (pick ui) = Some (RemoveOption a) \<and>
       filter (\<lambda>b. email b \<noteq> email a)
         (case assignees (st ! k) of None \<Rightarrow> [] | Some as \<Rightarrow> as) = [] \<longrightarrow>
       remoteAssignTodo now todo ui st team =
         (Rejected ''Cannot remove the last assignee. At least one assignee is required.'',
          st, team))
   \<and> (list_all hasAssignee st \<longrightarrow>
         list_all hasAssignee (fst (snd (remoteAssignTodo now todo ui st team)))
       \<and> list_all hasAssignee (remoteEditTodo now todo newMessage st)
       \<and> list_all hasAssignee (remoteMoveTodo now d todo typed st)
       \<and> list_all hasAssignee (remoteRemoveTodo todo st)
       \<and> list_all hasAssignee (snd (remoteAddTodo userInfo now ms input editor st))
       \<and> (case remoteConvertTodo userInfo now ms d n text st of
             Inl e \<Rightarrow> True | Inr (oc, st', d') \<Rightarrow> list_all hasAssignee st'))"
proof (intro conjI impI)
  assume "remoteConvertTodo userInfo now ms d n text st = Inr (Done, st', d')"
  then show "\<exists>u t. userInfo = Some u \<and> st' = st @ [t] \<and> author t = Some u \<and> assignees t = Some [u]"
    by (auto dest!: remoteConvertTodo_Done simp: newRemoteTodo_fields)
next
  assume "remoteAddTodo userInfo now ms input editor st = (Done, st'')"
  then show "\<exists>u t. userInfo = Some u \<and> st'' = st @ [t] \<and> author t = Some u \<and> assignees t = Some [u]"
    by (auto dest!: remoteAddTodo_cases simp: newRemoteTodo_fields)
next
  assume "findIndex (\<lambda>t. id' t = id' todo) st = Some k \<and>
       showQuickPick
         (assignOptions (case assignees (st ! k) of None \<Rightarrow> [] | Some as \<Rightarrow> as) team)
         (pick ui) = Some (RemoveOption a) \<and>
       filter (\<lambda>b. email b \<noteq> email a)
         (case assignees (st ! k) of None \<Rightarrow> [] | Some as \<Rightarrow> as) = []"
  then show "remoteAssignTodo now todo ui st team =
         (Rejected ''Cannot remove the last assignee. At least one assignee is required.'',
          st, team)"
    using remoteAssignTodo_last_assignee [of todo st k team ui a now] by blast
next
  assume inv: "list_all hasAssignee st"
  then show "list_all hasAssignee (fst (snd (remoteAssignTodo now todo ui st team)))"
    by (rule remoteAssignTodo_hasAssignee)
  from inv show "list_all hasAssignee (remoteEditTodo now todo newMessage st)"
    by (rule remoteEditTodo_hasAssignee)
  from inv show "list_all hasAssignee (remoteMoveTodo now d todo typed st)"
    by (rule remoteMoveTodo_hasAssignee)
  from inv show "list_all hasAssignee (remoteRemoveTodo todo st)"
    by (rule remoteRemoveTodo_hasAssignee)
  from inv show "list_all hasAssignee (snd (remoteAddTodo userInfo now ms input editor st))"
    by (rule remoteAddTodo_hasAssignee)
  from inv show "case remoteConvertTodo userInfo now ms d n text st of
             Inl e \<Rightarrow> True | Inr (oc, st', d') \<Rightarrow> list_all hasAssignee st'"
    by (auto split: sum.splits dest: remoteConvertTodo_hasAssignee)
qed

theorem assignee_invariant_witness:
  "remoteAssignTodo ''2024-02-02T00:00:00.000Z'' exampleSolo pickFirst [exampleSolo] [] =
     (Rejected ''Cannot remove the last assignee. At least one assignee is required.'',
      [exampleSolo], [])
   \<and> list_all hasAssignee [exampleSolo]
   \<and> list_all hasAssignee
        (fst (snd (remoteAssignTodo ''2024-02-02T00:00:00.000Z'' exampleSolo pickFirst
                     [exampleSolo] [])))
   \<and> remoteConvertTodo (Some \<lparr> name = ''A'', email = ''a@x.com'' \<rparr>)
        ''2024-02-02T00:00:00.000Z'' 5 (docOf [''// TODO: a'']) 0 ''// TODO: a'' [exampleSolo] =
      Inr (Done,
           [exampleSolo,
            newRemoteTodo \<lparr> name = ''A'', email = ''a@x.com'' \<rparr> ''2024-02-02T00:00:00.000Z'' 5
              ''/p/a.ts'' 0 ''a''],
           docOf [[]])"
proof -
  have a: "remoteConvertTodo (Some \<lparr> name = ''A'', email = ''a@x.com'' \<rparr>)
        ''2024-02-02T00:00:00.000Z'' 5 (docOf [''// TODO: a'']) 0 ''// TODO: a'' [exampleSolo] =
      Inr (Done,
           [exampleSolo,
            newRemoteTodo \<lparr> name = ''A'', email = ''a@x.com'' \<rparr> ''2024-02-02T00:00:00.000Z'' 5
              ''/p/a.ts'' 0 ''a''],
           docOf [[]])"
    by (simp add: remoteConvertTodo_def Let_def lineAt_def lineCount_def docOf_fields
          removeTodoComment_whole_line)
       (simp add: regex_defs trim_def)
  have b: "findIndex (\<lambda>t. id' t = id' exampleSolo) [exampleSolo] = Some 0"
    by simp
  have c: "showQuickPick
         (assignOptions (case assignees ([exampleSolo] ! 0) of None \<Rightarrow> [] | Some as \<Rightarrow> as) [])
         (pick pickFirst) = Some (RemoveOption \<lparr> name = ''A'', email = ''a@x.com'' \<rparr>)"
    by (simp add: showQuickPick_def assignOptions_def pickFirst_def exampleSolo_def)
  have e: "filter (\<lambda>b. email b \<noteq> email \<lparr> name = ''A'', email = ''a@x.com'' \<rparr>)
         (case assignees ([exampleSolo] ! 0) of None \<Rightarrow> [] | Some as \<Rightarrow> as) = []"
    by (simp add: exampleSolo_def)
  have inv: "list_all hasAssignee [exampleSolo]"
    by (simp add: hasAssignee_def exampleSolo_def)
  from assignee_invariant [where st = "[exampleSolo]" and todo = exampleSolo and k = 0
      and team = "[]" and ui = pickFirst and a = "\<lparr> name = ''A'', email = ''a@x.com'' \<rparr>"
      and now = "''2024-02-02T00:00:00.000Z''"] a b c e inv
  show ?thesis by simp
qed

section \<open>Move\<close>













section \<open>The scan of a line\<close>

lemma bind_head: "List.bind xs f = y # ys \<Longrightarrow> \<exists>x \<in> set xs. \<exists>zs. f x = y # zs"
proof (induction xs)
  case Nil
  then show ?case by simp
next
  case (Cons x xs)
  show ?case
  proof (cases "f x")
    case Nil
    with Cons show ?thesis by simp
  next
    case (Cons z zs)
    with Cons.prems show ?thesis by simp
  qed
qed

lemma commentPrefix_suffix: "r \<in> set (commentPrefix s) \<Longrightarrow> \<exists>h. s = h @ r \<and> h \<noteq> []"
  by (induction s rule: commentPrefix.induct) (auto split: if_splits)

lemma spacesGreedy_suffix: "r \<in> set (spacesGreedy s) \<Longrightarrow> \<exists>h. s = h @ r"
proof (induction s)
  case Nil
  then show ?case by simp
next
  case (Cons c s)
  then show ?case by (auto split: if_splits intro: exI [of _ "c # h" for h] exI [of _ "[]"])
qed

lemma todoToken_suffix: "r \<in> set (todoToken s) \<Longrightarrow> \<exists>h. s = h @ r \<and> h \<noteq> []"
  by (induction s rule: todoToken.induct) (auto split: if_splits)

lemma optSeparator_suffix: "r \<in> set (optSeparator s) \<Longrightarrow> \<exists>h. s = h @ r"
  by (cases s) (auto split: if_splits)

lemma todoHeader_suffix:
  assumes "r \<in> set (todoHeader s)"
  shows "\<exists>h. s = h @ r \<and> h \<noteq> []"
proof -
  from assms obtain s1 s2 s3 where "s1 \<in> set (commentPrefix s)" "s2 \<in> set (spacesGreedy s1)"
    "s3 \<in> set (todoToken s2)" "r \<in> set (optSeparator s3)"
    unfolding todoHeader_def set_list_bind by auto
  then obtain h1 h2 h3 h4 where "s = h1 @ s1" "h1 \<noteq> []" "s1 = h2 @ s2" "s2 = h3 @ s3" "s3 = h4 @ r"
    by (metis commentPrefix_suffix spacesGreedy_suffix todoToken_suffix optSeparator_suffix)
  then have "s = (h1 @ h2 @ h3 @ h4) @ r" "h1 @ h2 @ h3 @ h4 \<noteq> []" by simp_all
  then show ?thesis by blast
qed

lemma filter_map_capture:
  "filter (\<lambda>(m, r). Q r) (map (\<lambda>(m, r). (c # m, r)) xs) =
   map (\<lambda>(m, r). (c # m, r)) (filter (\<lambda>(m, r). Q r) xs)"
  by (induction xs) auto

lemma lazyDots_first:
  "filter (\<lambda>(m, r). Q r) (lazyDots s) = (g, r) # zs \<Longrightarrow>
     s = g @ r \<and> Q r \<and> (\<forall>g1 g2. g = g1 @ g2 \<and> g2 \<noteq> [] \<longrightarrow> \<not> Q (g2 @ r)) \<and>
     (\<forall>c \<in> set g. \<not> isLineTerminator c)"
proof (induction s arbitrary: g zs)
  case Nil
  then show ?case by (auto split: if_splits)
next
  case (Cons c s)
  show ?case
  proof (cases "Q (c # s)")
    case True
    with Cons.prems show ?thesis by simp
  next
    case False
    with Cons.prems have notterm: "\<not> isLineTerminator c"
      and f: "filter (\<lambda>(m, r). Q r) (map (\<lambda>(m, r). (c # m, r)) (lazyDots s)) = (g, r) # zs"
      by (auto split: if_splits)
    have "filter (\<lambda>(m, r). Q r) (map (\<lambda>(m, r). (c # m, r)) (lazyDots s)) =
          map (\<lambda>(m, r). (c # m, r)) (filter (\<lambda>(m, r). Q r) (lazyDots s))"
      by (rule filter_map_capture)
    with f obtain g' zs' where g': "filter (\<lambda>(m, r). Q r) (lazyDots s) = (g', r) # zs'" "g = c # g'"
      by (auto simp: map_eq_Cons_conv)
    from Cons.IH [OF g'(1)] have ih: "s = g' @ r" "Q r"
      "\<forall>g1 g2. g' = g1 @ g2 \<and> g2 \<noteq> [] \<longrightarrow> \<not> Q (g2 @ r)" "\<forall>c \<in> set g'. \<not> isLineTerminator c"
      by auto
    have "\<not> Q (g2 @ r)" if "g = g1 @ g2" "g2 \<noteq> []" for g1 g2
    proof (cases g1)
      case Nil
      with that g'(2) ih(1) False show ?thesis by auto
    next
      case (Cons a g1')
      with that g'(2) have "g' = g1' @ g2" by simp
      with ih(3) that(2) show ?thesis by blast
    qed
    with ih g'(2) notterm show ?thesis by auto
  qed
qed

lemma todoRegexAt_head:
  assumes "todoRegexAt u = (g, r) # zs"
  shows "\<exists>hdr. u = hdr @ g @ r \<and> hdr \<noteq> [] \<and>
           g @ r \<in> set (List.bind (todoHeader u) spacesGreedy) \<and>
           nextTodoOrEnd r \<and>
           (\<forall>g1 g2. g = g1 @ g2 \<and> g2 \<noteq> [] \<longrightarrow> \<not> nextTodoOrEnd (g2 @ r)) \<and>
           (\<forall>c \<in> set g. \<not> isLineTerminator c)"
proof -
  from assms obtain s4 zs4 where s4: "s4 \<in> set (todoHeader u)"
    and "List.bind (spacesGreedy s4)
           (\<lambda>s5. filter (\<lambda>(m, r). nextTodoOrEnd r) (lazyDots s5)) = (g, r) # zs4"
    unfolding todoRegexAt_def by (blast dest: bind_head)
  then obtain s5 zs5 where s5: "s5 \<in> set (spacesGreedy s4)"
    and f: "filter (\<lambda>(m, r). nextTodoOrEnd r) (lazyDots s5) = (g, r) # zs5"
    by (blast dest: bind_head)
  from lazyDots_first [OF f] have d: "s5 = g @ r" "nextTodoOrEnd r"
    "\<forall>g1 g2. g = g1 @ g2 \<and> g2 \<noteq> [] \<longrightarrow> \<not> nextTodoOrEnd (g2 @ r)"
    "\<forall>c \<in> set g. \<not> isLineTerminator c"
    by auto
  from s4 obtain h where h: "u = h @ s4" "h \<noteq> []" by (blast dest: todoHeader_suffix)
  from s5 obtain h' where h': "s4 = h' @ s5" by (blast dest: spacesGreedy_suffix)
  from s4 s5 d(1) have "g @ r \<in> set (List.bind (todoHeader u) spacesGreedy)"
    unfolding set_list_bind by auto
  moreover from h h' d(1) have "u = (h @ h') @ g @ r" "h @ h' \<noteq> []" by simp_all
  ultimately show ?thesis using d by blast
qed

lemma execFrom_Some:
  "execFrom i s = Some (j, g, r) \<Longrightarrow>
     \<exists>k zs. j = i + k \<and> k < length s \<and> todoRegexAt (drop k s) = (g, r) # zs \<and>
            (\<forall>k'<k. todoRegexAt (drop k' s) = [])"
proof (induction i s rule: execFrom.induct)
  case (1 i s)
  show ?case
  proof (cases "todoRegexAt s")
    case Nil
    show ?thesis
    proof (cases s)
      case Nil
      with \<open>todoRegexAt s = []\<close> "1.prems" show ?thesis
        by (simp add: execFrom.simps [of i "[]"])
    next
      case (Cons c s')
      with \<open>todoRegexAt s = []\<close> "1.prems" have "execFrom (Suc i) s' = Some (j, g, r)"
        by (simp add: execFrom.simps [of i "c # s'"])
      with "1.IH" \<open>todoRegexAt s = []\<close> Cons obtain k zs where k: "j = Suc i + k" "k < length s'"
        "todoRegexAt (drop k s') = (g, r) # zs" "\<forall>k'<k. todoRegexAt (drop k' s') = []"
        by blast
      have "todoRegexAt (drop k' s) = []" if "k' < Suc k" for k'
        using that k(4) \<open>todoRegexAt s = []\<close> Cons by (cases k') auto
      with k Cons show ?thesis
        by (intro exI [of _ "Suc k"] exI [of _ zs]) simp
    qed
  next
    case (Cons p ps)
    with "1.prems" have "p = (g, r)" "j = i"
      by (cases p, simp add: execFrom.simps [of i s])+
    with Cons have "todoRegexAt (drop 0 s) = (g, r) # ps" by simp
    moreover from Cons \<open>p = (g, r)\<close> have "0 < length s"
      using todoRegexAt_shorter [of g r s] by auto
    ultimately show ?thesis using \<open>j = i\<close>
      by (intro exI [of _ 0] exI [of _ ps]) simp
  qed
qed

lemma execFrom_rest:
  assumes "execFrom i s = Some (j, g, r)"
  shows "r = drop (length s - length r) s" "j < i + (length s - length r)"
proof -
  from execFrom_Some [OF assms] obtain k zs where k: "j = i + k" "k < length s"
    "todoRegexAt (drop k s) = (g, r) # zs"
    by blast
  from todoRegexAt_head [OF k(3)] obtain hdr where hdr: "drop k s = hdr @ g @ r" "hdr \<noteq> []"
    by blast
  have "s = take k s @ hdr @ g @ r" using hdr(1) by (metis append_take_drop_id)
  then have s: "s = (take k s @ hdr @ g) @ r" by simp
  then have len: "length s - length r = length (take k s @ hdr @ g)"
    by (metis add_diff_cancel_right' length_append)
  with s show "r = drop (length s - length r) s"
    by (metis append_eq_conv_conj)
  from k(2) hdr(2) len k(1) show "j < i + (length s - length r)"
    by (cases hdr) auto
qed

lemma convertLoop_records:
  "t \<in> set (convertLoop f l i s) \<Longrightarrow>
     \<exists>k g r zs. column t = Some (i + k) \<and> k < length s \<and>
        todoRegexAt (drop k s) = (g, r) # zs \<and> message t = trim g \<and> trim g \<noteq> [] \<and>
        file t = f \<and> line t = l \<and> type t = Local \<and>
        id' t = Some (f @ '':'' @ numberToString l @ '':'' @ numberToString (int (i + k)))"
proof (induction f l i s rule: convertLoop.induct)
  case (1 f l i s)
  show ?case
  proof (cases "execFrom i s")
    case None
    with "1.prems" show ?thesis by (simp add: convertLoop.simps [of f l i s])
  next
    case (Some m)
    then obtain j g r where m: "execFrom i s = Some (j, g, r)" by (cases m) auto
    let ?new = "\<lparr> file = f, line = l, column = Some j, type = Local, message = trim g,
       id' = Some (f @ '':'' @ numberToString l @ '':'' @ numberToString (int j)),
       author = None, assignees = None, createdAt = None, updatedAt = None \<rparr>"
    from m "1.prems" consider (first) "trim g \<noteq> []" "t = ?new"
      | (later) "t \<in> set (convertLoop f l (i + (length s - length r)) r)"
      by (auto simp: convertLoop.simps [of f l i s] Let_def split: if_splits)
    then show ?thesis
    proof cases
      case first
      from execFrom_Some [OF m] obtain k zs where "j = i + k" "k < length s"
        "todoRegexAt (drop k s) = (g, r) # zs"
        by blast
      with first show ?thesis by auto
    next
      case later
      from "1.IH" [OF m refl refl refl later] obtain k g' r' zs where
        k: "column t = Some (i + (length s - length r) + k)" "k < length r"
        "todoRegexAt (drop k r) = (g', r') # zs" "message t = trim g'" "trim g' \<noteq> []"
        "file t = f" "line t = l" "type t = Local"
        "id' t = Some (f @ '':'' @ numberToString l @ '':'' @
           numberToString (int (i + (length s - length r) + k)))"
        by blast
      from execFrom_rest(1) [OF m] have "drop k r = drop (length s - length r + k) s"
        by (metis add.commute drop_drop)
      moreover from execFrom_shorter [OF m] k(2) have "length s - length r + k < length s"
        by simp
      ultimately show ?thesis using k
        by (intro exI [of _ "length s - length r + k"] exI [of _ g'] exI [of _ r'] exI [of _ zs])
           (simp add: add.assoc)
    qed
  qed
qed

lemma convertLoop_columns:
  "\<exists>cs. map column (convertLoop f l i s) = map Some cs \<and> sorted_wrt (<) cs \<and>
        (\<forall>c \<in> set cs. i \<le> c)"
proof (induction f l i s rule: convertLoop.induct)
  case (1 f l i s)
  show ?case
  proof (cases "execFrom i s")
    case None
    then show ?thesis by (simp add: convertLoop.simps [of f l i s])
  next
    case (Some m)
    then obtain j g r where m: "execFrom i s = Some (j, g, r)" by (cases m) auto
    from "1.IH" [OF m refl refl refl] obtain cs where
      cs: "map column (convertLoop f l (i + (length s - length r)) r) = map Some cs"
      "sorted_wrt (<) cs" "\<forall>c \<in> set cs. i + (length s - length r) \<le> c"
      by blast
    from execFrom_Some [OF m] have ij: "i \<le> j" by auto
    from execFrom_rest(2) [OF m] have jlt: "j < i + (length s - length r)" .
    show ?thesis
    proof (cases "trim g = []")
      case True
      with m cs ij jlt show ?thesis
        by (intro exI [of _ cs]) (auto simp: convertLoop.simps [of f l i s])
    next
      case False
      with m cs ij jlt show ?thesis
        by (intro exI [of _ "j # cs"]) (auto simp: convertLoop.simps [of f l i s] Let_def)
    qed
  qed
qed

lemma convertLoop_two_columns:
  "map (\<lambda>t. (column t, message t)) (convertLoop file' n 0 ''// TODO: a // TODO: b'') =
     [(Some 0, ''a''), (Some 11, ''b'')]"
  by (simp add: convertLoop.simps [of _ _ _ "_ # _"] convertLoop.simps [of _ _ _ "[]"]
        exec_two_first exec_two_second exec_end trim_def isWhiteSpace_def)

text \<open>
  C8: the scan of "// TODO: a // TODO: b" yields two annotations, "a" at offset 0 and "b"
  at offset 11, the indices of the two "//". For every line the offsets of the
  annotations increase strictly, and each annotation sits at an offset where a comment
  prefix with TODO starts; after that header and the white space behind it comes the
  captured text \<open>g\<close>, whose trimmed form is the message, and \<open>g\<close> ends at the end of
  the line or where the next prefix with TODO starts, and at the first such place.
\<close>

theorem convertLoop_scans_left_to_right:
  "map (\<lambda>t. (column t, message t)) (convertLoop file' n 0 ''// TODO: a // TODO: b'') =
     [(Some 0, ''a''), (Some 11, ''b'')]
   \<and> (\<exists>cs. map column (convertLoop file' n 0 lineText) = map Some cs \<and> sorted_wrt (<) cs)
   \<and> (\<forall>t \<in> set (convertLoop file' n 0 lineText).
        \<exists>j hdr g r. column t = Some j \<and> j < length lineText \<and>
          drop j lineText = hdr @ g @ r \<and>
          todoHeader (drop j lineText) \<noteq> [] \<and>
          g @ r \<in> set (List.bind (todoHeader (drop j lineText)) spacesGreedy) \<and>
          message t = trim g \<and> message t \<noteq> [] \<and>
          nextTodoOrEnd r \<and>
          (\<forall>g1 g2. g = g1 @ g2 \<and> g2 \<noteq> [] \<longrightarrow> \<not> nextTodoOrEnd (g2 @ r)))"
proof (intro conjI ballI)
  show "map (\<lambda>t. (column t, message t)) (convertLoop file' n 0 ''// TODO: a // TODO: b'') =
     [(Some 0, ''a''), (Some 11, ''b'')]"
    by (rule convertLoop_two_columns)
next
  from convertLoop_columns [of file' n 0 lineText]
  show "\<exists>cs. map column (convertLoop file' n 0 lineText) = map Some cs \<and> sorted_wrt (<) cs"
    by blast
next
  fix t
  assume "t \<in> set (convertLoop file' n 0 lineText)"
  from convertLoop_records [OF this] obtain k g r zs where
    k: "column t = Some k" "k < length lineText" "todoRegexAt (drop k lineText) = (g, r) # zs"
    "message t = trim g" "trim g \<noteq> []"
    by auto
  from todoRegexAt_head [OF k(3)] obtain hdr where
    hdr: "drop k lineText = hdr @ g @ r"
    "g @ r \<in> set (List.bind (todoHeader (drop k lineText)) spacesGreedy)"
    "nextTodoOrEnd r" "\<forall>g1 g2. g = g1 @ g2 \<and> g2 \<noteq> [] \<longrightarrow> \<not> nextTodoOrEnd (g2 @ r)"
    by blast
  from hdr(2) have "todoHeader (drop k lineText) \<noteq> []"
    by (auto simp: set_list_bind)
  with k hdr
  show "\<exists>j hdr g r. column t = Some j \<and> j < length lineText \<and>
          drop j lineText = hdr @ g @ r \<and>
          todoHeader (drop j lineText) \<noteq> [] \<and>
          g @ r \<in> set (List.bind (todoHeader (drop j lineText)) spacesGreedy) \<and>
          message t = trim g \<and> message t \<noteq> [] \<and>
          nextTodoOrEnd r \<and>
          (\<forall>g1 g2. g = g1 @ g2 \<and> g2 \<noteq> [] \<longrightarrow> \<not> nextTodoOrEnd (g2 @ r))"
    by (intro exI [of _ k] exI [of _ hdr] exI [of _ g] exI [of _ r]) simp
qed

theorem convertLoop_scans_left_to_right_witness:
  "convertLoop ''/p/a.ts'' 0 0 ''// TODO: a // TODO: b'' =
     [localTodoAt 0 (Some 0) ''a'' ''/p/a.ts:0:0'', localTodoAt 0 (Some 11) ''b'' ''/p/a.ts:0:11'']
   \<and> map (\<lambda>t. (column t, message t)) (convertLoop ''/p/a.ts'' 0 0 ''// TODO: a // TODO: b'') =
     [(Some 0, ''a''), (Some 11, ''b'')]
   \<and> (\<exists>j hdr g r. j < length ''// TODO: a // TODO: b'' \<and>
         column (localTodoAt 0 (Some 11) ''b'' ''/p/a.ts:0:11'') = Some j \<and>
         drop j ''// TODO: a // TODO: b'' = hdr @ g @ r \<and>
         message (localTodoAt 0 (Some 11) ''b'' ''/p/a.ts:0:11'') = trim g \<and> nextTodoOrEnd r)
   \<and> localConvertTodo (docOf [''// TODO: a // TODO: b'', ''let x = 1;'']) 0
        ''// TODO: a // TODO: b'' [] =
      Inr ([localTodoAt 0 (Some 0) ''a'' ''/p/a.ts:0:0'',
            localTodoAt 0 (Some 11) ''b'' ''/p/a.ts:0:11''], docOf [''let x = 1;''])"
proof -
  have conv: "localConvertTodo (docOf [''// TODO: a // TODO: b'', ''let x = 1;'']) 0
        ''// TODO: a // TODO: b'' [] =
      Inr ([localTodoAt 0 (Some 0) ''a'' ''/p/a.ts:0:0'',
            localTodoAt 0 (Some 11) ''b'' ''/p/a.ts:0:11''], docOf [''let x = 1;''])"
    by (simp add: localConvertTodo_def Let_def lineAt_def lineCount_def docOf_fields
          convertLoop_two)
       (simp add: removeTodoComment_def trim_def regex_defs deleteLineIncludingBreak_def
          docOf_def)
  have mem: "localTodoAt 0 (Some 11) ''b'' ''/p/a.ts:0:11'' \<in>
      set (convertLoop ''/p/a.ts'' 0 0 ''// TODO: a // TODO: b'')"
    by (simp add: convertLoop_two)
  from convertLoop_scans_left_to_right [of "''/p/a.ts''" 0 "''// TODO: a // TODO: b''"] mem
  have "\<exists>j hdr g r. j < length ''// TODO: a // TODO: b'' \<and>
         column (localTodoAt 0 (Some 11) ''b'' ''/p/a.ts:0:11'') = Some j \<and>
         drop j ''// TODO: a // TODO: b'' = hdr @ g @ r \<and>
         message (localTodoAt 0 (Some 11) ''b'' ''/p/a.ts:0:11'') = trim g \<and> nextTodoOrEnd r"
    by blast
  with conv convertLoop_two convertLoop_two_columns show ?thesis by blast
qed

section \<open>Identity of records\<close>

lemma natToString_nonempty: "natToString n \<noteq> []"
  by (subst natToString.simps) simp

lemma digit_inj:
  assumes "a < 10" "b < 10" "''0123456789'' ! a = ''0123456789'' ! b"
  shows "a = b"
proof -
  have "distinct ''0123456789''" by simp
  moreover have "a < length ''0123456789''" "b < length ''0123456789''" using assms by simp_all
  ultimately show ?thesis using assms(3) by (simp only: nth_eq_iff_index_eq)
qed

lemma natToString_inj: "natToString n = natToString m \<Longrightarrow> n = m"
proof (induction n arbitrary: m rule: natToString.induct)
  case (1 n)
  show ?case
  proof (cases "n < 10")
    case True
    with "1.prems" have "natToString m = [''0123456789'' ! n]"
      by (simp add: natToString.simps [of n])
    then have m: "m < 10" "''0123456789'' ! m = ''0123456789'' ! n"
      using natToString_nonempty [of "m div 10"]
      by (auto simp: natToString.simps [of m] split: if_splits)
    with True digit_inj [of m n] show ?thesis by simp
  next
    case False
    with "1.prems" have eq: "natToString m = natToString (n div 10) @ [''0123456789'' ! (n mod 10)]"
      by (simp add: natToString.simps [of n])
    have "\<not> m < 10"
    proof
      assume "m < 10"
      with eq natToString_nonempty [of "n div 10"] show False
        by (simp add: natToString.simps [of m])
    qed
    with eq have "natToString (m div 10) = natToString (n div 10)"
      "''0123456789'' ! (m mod 10) = ''0123456789'' ! (n mod 10)"
      by (simp_all add: natToString.simps [of m])
    with "1.IH" [OF False, of "m div 10"] digit_inj [of "m mod 10" "n mod 10"]
    have "n div 10 = m div 10" "n mod 10 = m mod 10"
      by simp_all
    then show ?thesis by (metis div_mult_mod_eq)
  qed
qed

lemma numberToString_int_inj: "numberToString (int a) = numberToString (int b) \<Longrightarrow> a = b"
  by (auto simp: numberToString_def dest: natToString_inj)

text \<open>
  Within one run of the scan the ids are pairwise different: they differ in the column.
\<close>

lemma convertLoop_unique: "uniqueIds (convertLoop f l i s)"
proof -
  let ?G = "\<lambda>c. Some (f @ '':'' @ numberToString l @ '':'' @
                  numberToString (int (case c of None \<Rightarrow> 0 | Some k \<Rightarrow> k)))"
  obtain cs where cs: "map column (convertLoop f l i s) = map Some cs" "sorted_wrt (<) cs"
    using convertLoop_columns [of f l i s] by blast
  have "id' t = ?G (column t)" if "t \<in> set (convertLoop f l i s)" for t
    using convertLoop_records [OF that] by auto
  then have "map id' (convertLoop f l i s) = map ?G (map column (convertLoop f l i s))"
    by simp
  also have "\<dots> = map (\<lambda>k. ?G (Some k)) cs" by (simp add: cs(1) comp_def)
  finally have ids: "map id' (convertLoop f l i s) = map (\<lambda>k. ?G (Some k)) cs" .
  have "distinct cs" using cs(2) by (simp add: strict_sorted_iff)
  moreover have "inj_on (\<lambda>k. ?G (Some k)) (set cs)"
    by (rule inj_onI) (auto dest: numberToString_int_inj)
  ultimately show ?thesis
    unfolding uniqueIds_def ids by (simp add: distinct_map)
qed

text \<open>
  C3: the ids of a local store do not stay unique. Converting the first line of a
  document whose first two lines are "// TODO: a" and "// TODO: b" deletes that line, so
  the second comment is line 0 when it is converted in turn, and both records get the id
  "/p/a.ts:0:0": the second convert appends a record whose id is already in the store.
  The lookup by id of the move command then finds the record "a" when the record "b" is
  moved, and moves "a".
\<close>

theorem convert_twice_same_id:
  "localConvertTodo
     (docOf [''// TODO: a'', ''// TODO: b'', ''let x = 1;'', ''let y = 2;'', ''let z = 3;''])
     0 ''// TODO: a'' [] =
     Inr ([localTodoAt 0 (Some 0) ''a'' ''/p/a.ts:0:0''],
          docOf [''// TODO: b'', ''let x = 1;'', ''let y = 2;'', ''let z = 3;''])
   \<and> localConvertTodo (docOf [''// TODO: b'', ''let x = 1;'', ''let y = 2;'', ''let z = 3;''])
       0 ''// TODO: b'' [localTodoAt 0 (Some 0) ''a'' ''/p/a.ts:0:0''] =
     Inr ([localTodoAt 0 (Some 0) ''a'' ''/p/a.ts:0:0'',
           localTodoAt 0 (Some 0) ''b'' ''/p/a.ts:0:0''],
          docOf [''let x = 1;'', ''let y = 2;'', ''let z = 3;''])
   \<and> uniqueIds [localTodoAt 0 (Some 0) ''a'' ''/p/a.ts:0:0'']
   \<and> \<not> uniqueIds [localTodoAt 0 (Some 0) ''a'' ''/p/a.ts:0:0'',
                     localTodoAt 0 (Some 0) ''b'' ''/p/a.ts:0:0'']
   \<and> localMoveTodo (docOf [''let x = 1;'', ''let y = 2;'', ''let z = 3;''])
       (localTodoAt 0 (Some 0) ''b'' ''/p/a.ts:0:0'') [''3'']
       [localTodoAt 0 (Some 0) ''a'' ''/p/a.ts:0:0'',
        localTodoAt 0 (Some 0) ''b'' ''/p/a.ts:0:0''] =
     [localTodoAt 2 (Some 0) ''a'' ''/p/a.ts:0:0'',
      localTodoAt 0 (Some 0) ''b'' ''/p/a.ts:0:0'']"
proof -
  have first: "localConvertTodo
     (docOf [''// TODO: a'', ''// TODO: b'', ''let x = 1;'', ''let y = 2;'', ''let z = 3;''])
     0 ''// TODO: a'' [] =
     Inr ([localTodoAt 0 (Some 0) ''a'' ''/p/a.ts:0:0''],
          docOf [''// TODO: b'', ''let x = 1;'', ''let y = 2;'', ''let z = 3;''])"
    by (simp add: localConvertTodo_def Let_def lineAt_def lineCount_def docOf_fields
          convertLoop_single_a removeTodoComment_whole_line)
  have second: "localConvertTodo
       (docOf [''// TODO: b'', ''let x = 1;'', ''let y = 2;'', ''let z = 3;''])
       0 ''// TODO: b'' [localTodoAt 0 (Some 0) ''a'' ''/p/a.ts:0:0''] =
     Inr ([localTodoAt 0 (Some 0) ''a'' ''/p/a.ts:0:0'',
           localTodoAt 0 (Some 0) ''b'' ''/p/a.ts:0:0''],
          docOf [''let x = 1;'', ''let y = 2;'', ''let z = 3;''])"
    by (simp add: localConvertTodo_def Let_def lineAt_def lineCount_def docOf_fields
          convertLoop_single_b removeTodoComment_whole_line)
  have before: "uniqueIds [localTodoAt 0 (Some 0) ''a'' ''/p/a.ts:0:0'']"
    by (simp add: uniqueIds_def)
  have after: "\<not> uniqueIds [localTodoAt 0 (Some 0) ''a'' ''/p/a.ts:0:0'',
                     localTodoAt 0 (Some 0) ''b'' ''/p/a.ts:0:0'']"
    by (simp add: uniqueIds_def localTodoAt_def)
  have three: "parseInt ''3'' = Some 3"
    by (simp add: parseInt_def isWhiteSpace_def isRadixDigit_def digitValue_def
          digitsValue_def)
  have valid: "validateLineNumber (docOf [''let x = 1;'', ''let y = 2;'', ''let z = 3;''])
      ''3'' = None"
    by (simp add: validateLineNumber_def three lineCount_def docOf_fields)
  have moved: "localMoveTodo (docOf [''let x = 1;'', ''let y = 2;'', ''let z = 3;''])
       (localTodoAt 0 (Some 0) ''b'' ''/p/a.ts:0:0'') [''3'']
       [localTodoAt 0 (Some 0) ''a'' ''/p/a.ts:0:0'',
        localTodoAt 0 (Some 0) ''b'' ''/p/a.ts:0:0''] =
     [localTodoAt 2 (Some 0) ''a'' ''/p/a.ts:0:0'',
      localTodoAt 0 (Some 0) ''b'' ''/p/a.ts:0:0'']"
    by (simp add: localMoveTodo_def valid three Let_def) (simp add: localTodoAt_def)
  from first second before after moved show ?thesis by blast
qed

section \<open>Visibility\<close>

text \<open>
  C5: a record is in the output of the visibility filter exactly when it is in the input,
  its type is remote, and the viewer's email equals (as a string, so case-sensitively) the
  author's email or the email of one of its assignees; the output keeps the input's order.
  For the record with author a@x.com and assignees a@x.com, b@x.com the viewer b@x.com
  sees it, the viewer c@x.com does not, and neither does B@x.com.
\<close>

theorem filterVisible_iff:
  "(t \<in> set (filterVisibleRemoteTodos todos viewer) \<longleftrightarrow>
      t \<in> set todos \<and> type t = Remote \<and>
      ((\<exists>a. author t = Some a \<and> email a = viewer) \<or>
       (\<exists>as a. assignees t = Some as \<and> a \<in> set as \<and> email a = viewer)))
   \<and> filterVisibleRemoteTodos [exampleRemote] ''b@x.com'' = [exampleRemote]
   \<and> filterVisibleRemoteTodos [exampleRemote] ''c@x.com'' = []
   \<and> filterVisibleRemoteTodos [exampleRemote] ''B@x.com'' = []"
proof -
  have general: "t \<in> set (filterVisibleRemoteTodos todos viewer) \<longleftrightarrow>
      t \<in> set todos \<and> type t = Remote \<and>
      ((\<exists>a. author t = Some a \<and> email a = viewer) \<or>
       (\<exists>as a. assignees t = Some as \<and> a \<in> set as \<and> email a = viewer))"
    by (auto simp: filterVisibleRemoteTodos_def authorMatches_def assigneeMatches_def
          list_ex_iff split: option.splits)
  have b: "filterVisibleRemoteTodos [exampleRemote] ''b@x.com'' = [exampleRemote]"
    by (simp add: filterVisibleRemoteTodos_def authorMatches_def assigneeMatches_def
          exampleRemote_def)
  have c: "filterVisibleRemoteTodos [exampleRemote] ''c@x.com'' = []"
    by (simp add: filterVisibleRemoteTodos_def authorMatches_def assigneeMatches_def
          exampleRemote_def)
  have B: "filterVisibleRemoteTodos [exampleRemote] ''B@x.com'' = []"
    by (simp add: filterVisibleRemoteTodos_def authorMatches_def assigneeMatches_def
          exampleRemote_def)
  from general b c B show ?thesis by blast
qed

text \<open>
  C10: every record in the output of the visibility filter has type remote; a record of
  another type is never in the output, whatever its author and assignees are.
\<close>

theorem filterVisible_only_remote:
  "(\<forall>t \<in> set (filterVisibleRemoteTodos todos viewer). type t = Remote)
   \<and> (type t \<noteq> Remote \<longrightarrow> t \<notin> set (filterVisibleRemoteTodos todos viewer))"
  by (auto simp: filterVisibleRemoteTodos_def)

theorem filterVisible_only_remote_witness:
  "type exampleLocalWithAuthor \<noteq> Remote
   \<and> authorMatches exampleLocalWithAuthor ''a@x.com''
   \<and> assigneeMatches exampleLocalWithAuthor ''a@x.com''
   \<and> exampleLocalWithAuthor \<notin> set (filterVisibleRemoteTodos
        [exampleLocalWithAuthor, exampleRemote] ''a@x.com'')
   \<and> map type (filterVisibleRemoteTodos [exampleLocalWithAuthor, exampleRemote] ''a@x.com'') =
       [Remote]"
  using filterVisible_only_remote
    [of "[exampleLocalWithAuthor, exampleRemote]" "''a@x.com''" exampleLocalWithAuthor]
  by (simp add: exampleLocalWithAuthor_def exampleRemote_def authorMatches_def
        assigneeMatches_def filterVisibleRemoteTodos_def)

end
